theory Spec2Isabelle
  imports Complex_Main "HOL-Library.Word"
begin

section \<open>Strings of the route handlers\<close>

text \<open>
  A JavaScript string is a sequence of UTF-16 code units. The character classes the
  phone helper looks at (the ASCII digits, the plus sign, the white space that
  \<^verbatim>\<open>String.prototype.trim\<close> removes) are sets of single code units, so a string is
  a list of 16-bit words. String literals of the source are ASCII and are written
  \<open>js ''...''\<close>.
\<close>

type_synonym jschar = "16 word"
type_synonym jsstring = "jschar list"

definition js :: "string \<Rightarrow> jsstring" where
  "js s = map (\<lambda>c. word_of_nat (of_char c)) s"

text \<open>
  \<^verbatim>\<open>trim\<close> removes white space and line terminators from both ends: TAB, LF, VT, FF,
  CR, SPACE, NBSP, U+1680, U+2000 to U+200A, U+2028, U+2029, U+202F, U+205F, U+3000 and
  U+FEFF.
\<close>

definition isWhiteSpace :: "jschar \<Rightarrow> bool" where
  "isWhiteSpace c \<longleftrightarrow>
     c \<in> set [0x0009, 0x000A, 0x000B, 0x000C, 0x000D, 0x0020, 0x00A0, 0x1680,
               0x2000, 0x2001, 0x2002, 0x2003, 0x2004, 0x2005, 0x2006, 0x2007,
               0x2008, 0x2009, 0x200A, 0x2028, 0x2029, 0x202F, 0x205F, 0x3000, 0xFEFF]"

definition trim :: "jsstring \<Rightarrow> jsstring" where
  "trim s = rev (dropWhile isWhiteSpace (rev (dropWhile isWhiteSpace s)))"

definition startsWith :: "jsstring \<Rightarrow> jsstring \<Rightarrow> bool" where
  "startsWith s p \<longleftrightarrow> take (length p) s = p"

text \<open>\<^verbatim>\<open>\d\<close> is \<^verbatim>\<open>[0-9]\<close> in a JavaScript regular expression without the unicode flag.\<close>

definition digit :: "jschar \<Rightarrow> bool" where
  "digit c \<longleftrightarrow> 0x30 \<le> c \<and> c \<le> 0x39"

definition digit_6_9 :: "jschar \<Rightarrow> bool" where
  "digit_6_9 c \<longleftrightarrow> 0x36 \<le> c \<and> c \<le> 0x39"

text \<open>
  \<^verbatim>\<open>/^[6-9]\d{9}$/.test(phone)\<close>: without the multiline flag the anchors match at
  the two ends of the input only.
\<close>

fun mobile10 :: "jsstring \<Rightarrow> bool" where
  "mobile10 [] = False"
| "mobile10 (c # cs) = (digit_6_9 c \<and> length cs = 9 \<and> list_all digit cs)"

text \<open>\<^verbatim>\<open>/^0[6-9]\d{9}$/.test(phone)\<close>\<close>

fun mobile0_10 :: "jsstring \<Rightarrow> bool" where
  "mobile0_10 [] = False"
| "mobile0_10 (c # cs) = (c = 0x30 \<and> mobile10 cs)"

text \<open>
  \<^verbatim>\<open>
  function formatPhoneNumber(phone) {
    if (!phone) return '';
    phone = phone.trim();
    if (phone.startsWith('+')) return phone;
    if (/^[6-9]\d{9}$/.test(phone)) return '+91' + phone;
    if (/^0[6-9]\d{9}$/.test(phone)) return '+91' + phone.slice(1);
    return phone;
  }
  \<close>
  The argument is a string or absent (\<open>None\<close> for \<^verbatim>\<open>undefined\<close> and \<^verbatim>\<open>null\<close>); the
  empty string is falsy as well.
\<close>

definition formatPhoneNumber :: "jsstring option \<Rightarrow> jsstring" where
  "formatPhoneNumber phone =
     (case phone of
        None \<Rightarrow> []
      | Some raw \<Rightarrow>
          if raw = [] then []
          else let phone = trim raw in
            if startsWith phone (js ''+'') then phone
            else if mobile10 phone then js ''+91'' @ phone
            else if mobile0_10 phone then js ''+91'' @ drop 1 phone
            else phone)"

section \<open>Documents\<close>

type_synonym object_id = nat
type_synonym date = nat

text \<open>
  An awaited database call either returns or throws, and a thrown error reaches the
  nearest \<^verbatim>\<open>catch\<close>; so does the promise of the SMS transport.
\<close>

datatype ('e, 'a) attempt = Throws 'e | Returns 'a

text \<open>
  The user documents the handlers read: \<^verbatim>\<open>_id\<close>, \<^verbatim>\<open>aadhar\<close>, \<^verbatim>\<open>name\<close>, \<^verbatim>\<open>phone\<close>,
  \<^verbatim>\<open>isActive\<close> and the embedded \<^verbatim>\<open>emergencyContacts\<close> (name, phone, relationship).
  A string path that is not set reads as \<^verbatim>\<open>undefined\<close>, here \<open>None\<close>.
\<close>

record contact =
  c_name :: "jsstring option"
  c_phone :: "jsstring option"
  c_relationship :: "jsstring option"

record user =
  u_id :: object_id
  aadhar :: jsstring
  u_name :: "jsstring option"
  u_phone :: "jsstring option"
  isActive :: bool
  emergencyContacts :: "contact list"

text \<open>
  \<^verbatim>\<open>sosAlertSchema\<close>. The subdocuments of \<^verbatim>\<open>notifiedContacts\<close> have the four paths
  name, phone, notifiedAt and response. The paths \<^verbatim>\<open>policeResponse\<close> and \<^verbatim>\<open>updatedAt\<close>
  and the \<^verbatim>\<open>_id\<close> of a subdocument are read by no handler and are left out.
\<close>

record location =
  latitude :: "real option"
  longitude :: "real option"
  address :: jsstring

record notified_contact =
  nc_name :: "jsstring option"
  nc_phone :: "jsstring option"
  notifiedAt :: date
  response :: jsstring

record alert =
  a_id :: object_id
  userId :: object_id
  userAadhar :: jsstring
  userName :: jsstring
  userPhone :: "jsstring option"
  location :: location
  description :: jsstring
  status :: jsstring
  priority :: jsstring
  emergencyType :: jsstring
  notifiedContacts :: "notified_contact list"
  policeNotified :: bool
  resolvedAt :: "date option"
  resolvedBy :: "object_id option"
  createdAt :: date

text \<open>\<^verbatim>\<open>sosAlertSchema.methods.getSummary\<close>\<close>

record summary =
  s_id :: object_id
  s_status :: jsstring
  s_priority :: jsstring
  s_emergencyType :: jsstring
  s_location :: location
  s_createdAt :: date
  s_userName :: jsstring
  s_userPhone :: "jsstring option"

definition getSummary :: "alert \<Rightarrow> summary" where
  "getSummary this =
     \<lparr>s_id = a_id this, s_status = status this, s_priority = priority this,
      s_emergencyType = emergencyType this, s_location = location this,
      s_createdAt = createdAt this, s_userName = userName this,
      s_userPhone = userPhone this\<rparr>"

text \<open>The entries of \<^verbatim>\<open>notificationResults\<close>, as the loops push them.\<close>

record notification =
  n_name :: "jsstring option"
  n_phone :: jsstring
  n_relationship :: "jsstring option"
  n_status :: jsstring
  n_error :: jsstring

section \<open>Requests, replies and the environment\<close>

text \<open>
  A request: the bearer header, the route parameter and the body fields the handlers
  destructure. A field the client did not send is \<open>None\<close>.
\<close>

record request =
  authorization :: "jsstring option"
  params_alertId :: object_id
  body_latitude :: "real option"
  body_longitude :: "real option"
  body_address :: "jsstring option"
  body_description :: "jsstring option"
  body_emergencyType :: "jsstring option"
  body_status :: "jsstring option"
  body_resolutionNotes :: "jsstring option"
  body_contactPhone :: "jsstring option"
  body_response :: "jsstring option"

text \<open>What \<^verbatim>\<open>res.status(code).json(...)\<close> sends: the status code and the JSON body.\<close>

datatype payload =
    ErrorBody jsstring
  | ValidationBody "jsstring list"
  | CreatedBody jsstring summary "notification list"
  | AlertBody jsstring summary
  | NotifiedBody jsstring "notification list" summary

type_synonym reply = "nat \<times> payload"

text \<open>The two collections, each in the order in which the store iterates it.\<close>

record db =
  alerts :: "alert list"
  users :: "user list"

datatype db_call = SaveAlert | FindUsers | SaveLedger | FindAlert | FindUser

text \<open>
  What a handler cannot decide by itself is given with the call: the three Twilio
  settings of the process environment, the answer of the transport to the \<open>i\<close>-th
  attempt of a fan-out for a destination number (the promise of
  \<^verbatim>\<open>messages.create\<close> resolves, or rejects with an error whose \<^verbatim>\<open>message\<close> is
  given), which database calls throw (a lost connection, a document the schema
  rejects, a route parameter that is no object id), the clock, the \<^verbatim>\<open>_id\<close> given to a new document, and the length check of
  the validation library. The text of the emergency message and the sender number
  are passed to the transport only and are not modelled.
\<close>

type_synonym twilio = "nat \<Rightarrow> jsstring \<Rightarrow> (jsstring, unit) attempt"

record env =
  accountSid :: "jsstring option"
  authToken :: "jsstring option"
  twilioPhone :: "jsstring option"
  messages_create :: twilio
  fails :: "db_call \<Rightarrow> bool"
  now :: date
  fresh_id :: object_id
  isLength_max :: "nat \<Rightarrow> jsstring \<Rightarrow> bool"

definition truthy :: "jsstring option \<Rightarrow> bool" where
  "truthy v = (case v of None \<Rightarrow> False | Some s \<Rightarrow> s \<noteq> [])"

text \<open>\<^verbatim>\<open>v || d\<close> on a string that may be absent\<close>

definition or_default :: "jsstring option \<Rightarrow> jsstring \<Rightarrow> jsstring" where
  "or_default v d = (case v of None \<Rightarrow> d | Some s \<Rightarrow> if s = [] then d else s)"

text \<open>\<^verbatim>\<open>const twilioClient = accountSid && authToken ? new twilio(accountSid, authToken) : null;\<close>\<close>

definition twilioClient :: "env \<Rightarrow> twilio option" where
  "twilioClient e =
     (if truthy (accountSid e) \<and> truthy (authToken e) then Some (messages_create e) else None)"

section \<open>Database calls\<close>

text \<open>
  \<^verbatim>\<open>save()\<close> of a new document inserts it (a second document with the same \<^verbatim>\<open>_id\<close>
  is refused by the store), \<^verbatim>\<open>save()\<close> of a document that was read writes it back in
  its place.
\<close>

fun write_back :: "alert \<Rightarrow> alert list \<Rightarrow> alert list" where
  "write_back a [] = []"
| "write_back a (x # xs) = (if a_id x = a_id a then a # xs else x # write_back a xs)"

definition save_new :: "env \<Rightarrow> db_call \<Rightarrow> db \<Rightarrow> alert \<Rightarrow> (unit, db) attempt" where
  "save_new e c d a =
     (if fails e c then Throws ()
      else if list_ex (\<lambda>x. a_id x = a_id a) (alerts d) then Throws ()
      else Returns (d\<lparr>alerts := alerts d @ [a]\<rparr>))"

definition save :: "env \<Rightarrow> db_call \<Rightarrow> db \<Rightarrow> alert \<Rightarrow> (unit, db) attempt" where
  "save e c d a =
     (if fails e c then Throws ()
      else Returns (d\<lparr>alerts := write_back a (alerts d)\<rparr>))"

definition stored :: "db \<Rightarrow> object_id \<Rightarrow> alert option" where
  "stored d i = find (\<lambda>a. a_id a = i) (alerts d)"

definition SOSAlert_findById :: "env \<Rightarrow> db \<Rightarrow> object_id \<Rightarrow> (unit, alert option) attempt" where
  "SOSAlert_findById e d i = (if fails e FindAlert then Throws () else Returns (stored d i))"

text \<open>\<^verbatim>\<open>User.find({ isActive: true, _id: { $ne: user._id } })\<close>\<close>

definition User_find_others :: "env \<Rightarrow> db \<Rightarrow> object_id \<Rightarrow> (unit, user list) attempt" where
  "User_find_others e d uid =
     (if fails e FindUsers then Throws ()
      else Returns (filter (\<lambda>u. isActive u \<and> u_id u \<noteq> uid) (users d)))"

definition User_findById :: "env \<Rightarrow> db \<Rightarrow> object_id \<Rightarrow> (unit, user option) attempt" where
  "User_findById e d uid =
     (if fails e FindUser then Throws ()
      else Returns (find (\<lambda>u. u_id u = uid) (users d)))"

text \<open>
  \<^verbatim>\<open>.populate('userId')\<close> puts the referenced user document in the place of the id,
  and \<^verbatim>\<open>null\<close> when no user has that id. A path that was not populated holds the id.
\<close>

datatype user_ref = Unpopulated object_id | Populated user | Null

definition populate_userId :: "db \<Rightarrow> alert \<Rightarrow> user_ref" where
  "populate_userId d a =
     (case find (\<lambda>u. u_id u = userId a) (users d) of
        Some u \<Rightarrow> Populated u
      | None \<Rightarrow> Null)"

section \<open>Validation chains\<close>

text \<open>
  \<^verbatim>\<open>isFloat({ min, max })\<close> on a field that holds a number: the field is there and in
  range. \<^verbatim>\<open>optional()\<close> skips the chain of a field that is absent. \<^verbatim>\<open>isIn(list)\<close>
  and \<^verbatim>\<open>notEmpty()\<close> read an absent field as the empty string.
\<close>

definition isFloat :: "real option \<Rightarrow> real \<Rightarrow> real \<Rightarrow> bool" where
  "isFloat v lo hi = (case v of None \<Rightarrow> False | Some x \<Rightarrow> lo \<le> x \<and> x \<le> hi)"

definition optional :: "'a option \<Rightarrow> ('a \<Rightarrow> bool) \<Rightarrow> bool" where
  "optional v chk = (case v of None \<Rightarrow> True | Some x \<Rightarrow> chk x)"

definition isIn :: "jsstring option \<Rightarrow> jsstring list \<Rightarrow> bool" where
  "isIn v allowed = (case v of None \<Rightarrow> [] \<in> set allowed | Some x \<Rightarrow> x \<in> set allowed)"

definition notEmpty :: "jsstring option \<Rightarrow> bool" where
  "notEmpty v = (case v of None \<Rightarrow> False | Some x \<Rightarrow> x \<noteq> [])"

text \<open>\<^verbatim>\<open>createAlertValidation\<close>; the result is \<^verbatim>\<open>validationResult(req).array()\<close>.\<close>

definition createAlertValidation :: "env \<Rightarrow> request \<Rightarrow> jsstring list" where
  "createAlertValidation e req =
     (if isFloat (body_latitude req) (- 90) 90 then []
      else [js ''Valid latitude is required'']) @
     (if isFloat (body_longitude req) (- 180) 180 then []
      else [js ''Valid longitude is required'']) @
     (if optional (body_description req) (isLength_max e 500) then []
      else [js ''Description must be less than 500 characters'']) @
     (if optional (body_emergencyType req)
           (\<lambda>t. t \<in> set [js ''harassment'', js ''assault'', js ''medical'', js ''accident'',
                           js ''other''])
      then [] else [js ''Invalid emergency type''])"

definition statusValidation :: "request \<Rightarrow> jsstring list" where
  "statusValidation req =
     (if isIn (body_status req) [js ''active'', js ''resolved'', js ''false_alarm''] then []
      else [js ''Invalid status''])"

definition contactResponseValidation :: "request \<Rightarrow> jsstring list" where
  "contactResponseValidation req =
     (if notEmpty (body_contactPhone req) then [] else [js ''Contact phone is required'']) @
     (if isIn (body_response req) [js ''acknowledged'', js ''responding'', js ''unreachable'']
      then [] else [js ''Invalid response''])"

section \<open>Fan-out\<close>

text \<open>
  The body of both notification loops between \<^verbatim>\<open>let status = 'sent'\<close> and the
  \<^verbatim>\<open>push\<close>: the \<^verbatim>\<open>try\<close> with its \<^verbatim>\<open>catch\<close>, giving \<^verbatim>\<open>status\<close> and \<^verbatim>\<open>errorMsg\<close>.
\<close>

definition attempt_sms :: "env \<Rightarrow> nat \<Rightarrow> jsstring \<Rightarrow> jsstring \<times> jsstring" where
  "attempt_sms e i formattedPhone =
     (case twilioClient e of
        Some client \<Rightarrow>
          if truthy (twilioPhone e) then
            (case client i formattedPhone of
               Returns _ \<Rightarrow> (js ''sent'', [])
             | Throws message \<Rightarrow> (js ''failed'', js ''SMS failed: '' @ message))
          else (js ''logged'', js ''SMS not configured - emergency logged for manual notification'')
      | None \<Rightarrow>
          (js ''logged'', js ''SMS not configured - emergency logged for manual notification''))"

text \<open>\<^verbatim>\<open>for (const userDoc of allUsers) { ... }\<close> of the create route, from attempt \<open>i\<close> on.\<close>

fun notify_users :: "env \<Rightarrow> nat \<Rightarrow> user list \<Rightarrow> notification list" where
  "notify_users e i [] = []"
| "notify_users e i (userDoc # rest) =
     (let formattedPhone = formatPhoneNumber (u_phone userDoc);
          (status, errorMsg) = attempt_sms e i formattedPhone
      in \<lparr>n_name = u_name userDoc, n_phone = formattedPhone,
           n_relationship = Some (js ''System User''),
           n_status = status, n_error = errorMsg\<rparr> # notify_users e (Suc i) rest)"

text \<open>\<^verbatim>\<open>for (const contact of user.emergencyContacts) { ... }\<close> of the notify-contacts route.\<close>

fun notify_emergency_contacts :: "env \<Rightarrow> nat \<Rightarrow> contact list \<Rightarrow> notification list" where
  "notify_emergency_contacts e i [] = []"
| "notify_emergency_contacts e i (contact # rest) =
     (let formattedPhone = formatPhoneNumber (c_phone contact);
          (status, errorMsg) = attempt_sms e i formattedPhone
      in \<lparr>n_name = c_name contact, n_phone = formattedPhone,
           n_relationship = c_relationship contact,
           n_status = status, n_error = errorMsg\<rparr> # notify_emergency_contacts e (Suc i) rest)"

text \<open>
  \<^verbatim>\<open>notificationResults.map(result => ({ phone, response: 'pending', notifiedAt: new Date(),
  status, error }))\<close> assigned to \<^verbatim>\<open>notifiedContacts\<close>: the subdocument schema has no
  \<^verbatim>\<open>status\<close> and no \<^verbatim>\<open>error\<close> path, so the two keys are not stored.
\<close>

definition to_notifiedContacts :: "env \<Rightarrow> notification list \<Rightarrow> notified_contact list" where
  "to_notifiedContacts e notificationResults =
     map (\<lambda>result. \<lparr>nc_name = None, nc_phone = Some (n_phone result), notifiedAt = now e,
                     response = js ''pending''\<rparr>) notificationResults"

section \<open>Create SOS alert\<close>

text \<open>\<^verbatim>\<open>new SOSAlert({ ... })\<close> with the defaults of the schema\<close>

definition new_SOSAlert :: "env \<Rightarrow> user \<Rightarrow> request \<Rightarrow> alert" where
  "new_SOSAlert e user req =
     \<lparr>a_id = fresh_id e,
      userId = u_id user,
      userAadhar = aadhar user,
      userName = or_default (u_name user) (js ''Anonymous''),
      userPhone = u_phone user,
      location = \<lparr>latitude = body_latitude req, longitude = body_longitude req,
                  address = or_default (body_address req) []\<rparr>,
      description = or_default (body_description req) [],
      status = js ''active'',
      priority = js ''high'',
      emergencyType = or_default (body_emergencyType req) (js ''other''),
      notifiedContacts = [],
      policeNotified = False,
      resolvedAt = None,
      resolvedBy = None,
      createdAt = now e\<rparr>"

text \<open>
  The inner \<^verbatim>\<open>try\<close> of the create route, with its \<^verbatim>\<open>catch (notificationError)\<close>: the
  store, the alert document in memory and \<^verbatim>\<open>notificationResults\<close> afterwards.
\<close>

definition notify_all_users ::
  "env \<Rightarrow> db \<Rightarrow> user \<Rightarrow> alert \<Rightarrow> db \<times> alert \<times> notification list" where
  "notify_all_users e d user sosAlert =
     (case User_find_others e d (u_id user) of
        Throws _ \<Rightarrow> (d, sosAlert, [])
      | Returns allUsers \<Rightarrow>
          if allUsers \<noteq> [] then
            let notificationResults = notify_users e 0 allUsers;
                sosAlert' = sosAlert\<lparr>notifiedContacts :=
                                         to_notifiedContacts e notificationResults\<rparr>
            in (case save e SaveLedger d sosAlert' of
                  Throws _ \<Rightarrow> (d, sosAlert', notificationResults)
                | Returns d' \<Rightarrow> (d', sosAlert', notificationResults))
          else (d, sosAlert, []))"

text \<open>
  \<^verbatim>\<open>router.post('/create', authenticateToken, createAlertValidation, ...)\<close>. The
  handler runs for a request the middleware let through; \<open>user\<close> is the \<^verbatim>\<open>req.user\<close>
  it left.
\<close>

definition createAlert :: "env \<Rightarrow> db \<Rightarrow> user \<Rightarrow> request \<Rightarrow> db \<times> reply" where
  "createAlert e d user req =
     (let errors = createAlertValidation e req in
      if errors \<noteq> [] then (d, (400, ValidationBody errors))
      else
        let sosAlert = new_SOSAlert e user req in
        case save_new e SaveAlert d sosAlert of
          Throws _ \<Rightarrow> (d, (500, ErrorBody (js ''Failed to create SOS alert'')))
        | Returns d1 \<Rightarrow>
            (case notify_all_users e d1 user sosAlert of
               (d2, sosAlert', notificationResults) \<Rightarrow>
                 (d2, (201, CreatedBody (js ''SOS alert created successfully'')
                              (getSummary sosAlert') notificationResults))))"

section \<open>Update status\<close>

text \<open>
  \<^verbatim>\<open>router.put('/:alertId/status', authenticateToken, [...], ...)\<close>. A body without
  \<^verbatim>\<open>status\<close> does not pass \<^verbatim>\<open>isIn\<close>, so the handler reads a string there.
\<close>

definition updateStatus :: "env \<Rightarrow> db \<Rightarrow> user \<Rightarrow> request \<Rightarrow> db \<times> reply" where
  "updateStatus e d user req =
     (let errors = statusValidation req in
      if errors \<noteq> [] then (d, (400, ValidationBody errors))
      else
        case SOSAlert_findById e d (params_alertId req) of
          Throws _ \<Rightarrow> (d, (500, ErrorBody (js ''Failed to update alert status'')))
        | Returns None \<Rightarrow> (d, (404, ErrorBody (js ''SOS alert not found'')))
        | Returns (Some alert) \<Rightarrow>
            if status alert \<noteq> js ''active''
            then (d, (400, ErrorBody (js ''Can only update active alerts'')))
            else
              (case body_status req of
                 None \<Rightarrow> (d, (400, ValidationBody errors))
               | Some new_status \<Rightarrow>
                   let alert1 = alert\<lparr>status := new_status\<rparr>;
                       alert2 = (if new_status = js ''resolved''
                                 then alert1\<lparr>resolvedAt := Some (now e),
                                             resolvedBy := Some (u_id user)\<rparr>
                                 else alert1)
                   in (case save e SaveAlert d alert2 of
                         Throws _ \<Rightarrow>
                           (d, (500, ErrorBody (js ''Failed to update alert status'')))
                       | Returns d' \<Rightarrow>
                           (d', (200, AlertBody (js ''Alert status updated successfully'')
                                        (getSummary alert2))))))"

section \<open>Record a contact's response\<close>

text \<open>
  \<^verbatim>\<open>const contact = alert.notifiedContacts.find(c => c.phone === contactPhone)\<close> gives
  the first subdocument with that phone, and the two assignments change it in place.
\<close>

fun update_found ::
  "(notified_contact \<Rightarrow> bool) \<Rightarrow> (notified_contact \<Rightarrow> notified_contact) \<Rightarrow>
   notified_contact list \<Rightarrow> notified_contact list" where
  "update_found P f [] = []"
| "update_found P f (c # cs) = (if P c then f c # cs else c # update_found P f cs)"

text \<open>
  \<^verbatim>\<open>router.post('/:alertId/contact-response', [...], ...)\<close>: the route mounts no
  \<^verbatim>\<open>authenticateToken\<close>, and the handler has the request only. A body that passed the
  two chains has both strings.
\<close>

definition recordContactResponse :: "env \<Rightarrow> db \<Rightarrow> request \<Rightarrow> db \<times> reply" where
  "recordContactResponse e d req =
     (let errors = contactResponseValidation req in
      if errors \<noteq> [] then (d, (400, ValidationBody errors))
      else
        case (body_contactPhone req, body_response req) of
          (Some contactPhone, Some response') \<Rightarrow>
            (case SOSAlert_findById e d (params_alertId req) of
               Throws _ \<Rightarrow> (d, (500, ErrorBody (js ''Failed to record contact response'')))
             | Returns None \<Rightarrow> (d, (404, ErrorBody (js ''SOS alert not found'')))
             | Returns (Some alert) \<Rightarrow>
                 let contacts =
                       (case find (\<lambda>c. nc_phone c = Some contactPhone) (notifiedContacts alert) of
                          Some contact \<Rightarrow>
                            update_found (\<lambda>c. nc_phone c = Some contactPhone)
                              (\<lambda>c. c\<lparr>response := response', notifiedAt := now e\<rparr>)
                              (notifiedContacts alert)
                        | None \<Rightarrow>
                            notifiedContacts alert @
                              [\<lparr>nc_name = None, nc_phone = Some contactPhone,
                                notifiedAt = now e, response = response'\<rparr>]);
                     alert' = alert\<lparr>notifiedContacts := contacts\<rparr>
                 in (case save e SaveAlert d alert' of
                       Throws _ \<Rightarrow>
                         (d, (500, ErrorBody (js ''Failed to record contact response'')))
                     | Returns d' \<Rightarrow>
                         (d', (200, AlertBody (js ''Contact response recorded successfully'')
                                      (getSummary alert')))))
        | _ \<Rightarrow> (d, (400, ValidationBody errors)))"

section \<open>Notify emergency contacts\<close>

text \<open>
  \<^verbatim>\<open>alert.userId._id ? alert.userId._id.toString() : alert.userId.toString()\<close>: the
  \<^verbatim>\<open>_id\<close> of a populated user, the id itself when the path holds an id, and a
  \<^verbatim>\<open>TypeError\<close> on \<^verbatim>\<open>null\<close>. Two ids have the same string exactly when they are equal.
\<close>

definition alertUserId :: "user_ref \<Rightarrow> (unit, object_id) attempt" where
  "alertUserId r =
     (case r of
        Populated u \<Rightarrow> Returns (u_id u)
      | Unpopulated i \<Rightarrow> Returns i
      | Null \<Rightarrow> Throws ())"

text \<open>\<^verbatim>\<open>router.post('/:alertId/notify-contacts', authenticateToken, ...)\<close>\<close>

definition notifyContacts :: "env \<Rightarrow> db \<Rightarrow> user \<Rightarrow> request \<Rightarrow> db \<times> reply" where
  "notifyContacts e d req_user req =
     (case SOSAlert_findById e d (params_alertId req) of
        Throws _ \<Rightarrow> (d, (500, ErrorBody (js ''Failed to notify contacts'')))
      | Returns None \<Rightarrow> (d, (404, ErrorBody (js ''SOS alert not found'')))
      | Returns (Some alert) \<Rightarrow>
          (case alertUserId (populate_userId d alert) of
             Throws _ \<Rightarrow> (d, (500, ErrorBody (js ''Failed to notify contacts'')))
           | Returns creator \<Rightarrow>
               if creator \<noteq> u_id req_user
               then (d, (403, ErrorBody
                       (js ''Not authorized to notify contacts for this alert'')))
               else
                 (case User_findById e d (u_id req_user) of
                    Throws _ \<Rightarrow> (d, (500, ErrorBody (js ''Failed to notify contacts'')))
                  | Returns found \<Rightarrow>
                      (case found of
                         None \<Rightarrow>
                           (d, (400, ErrorBody (js
    ''No emergency contacts found. Please add emergency contacts in your profile.'')))
                       | Some user \<Rightarrow>
                           if emergencyContacts user = []
                           then (d, (400, ErrorBody (js
    ''No emergency contacts found. Please add emergency contacts in your profile.'')))
                           else
                             let notificationResults =
                                   notify_emergency_contacts e 0 (emergencyContacts user);
                                 alert' = alert\<lparr>notifiedContacts :=
                                            to_notifiedContacts e notificationResults\<rparr>
                             in (case save e SaveLedger d alert' of
                                   Throws _ \<Rightarrow>
                                     (d, (500, ErrorBody (js ''Failed to notify contacts'')))
                                 | Returns d' \<Rightarrow>
                                     (d', (200, NotifiedBody
                                        (js ''Emergency contacts notified successfully'')
                                        notificationResults (getSummary alert'))))))))"

section \<open>The notifier contract of the specification\<close>

text \<open>
  The specification describes the transport as a notifier with three outcomes and
  gives the ledger entry of each. These two definitions follow the specification's
  words; the loops above are compared with them.
\<close>

datatype outcome = Sent | Failed jsstring | Unconfigured

definition spec_Notifier_send :: "env \<Rightarrow> nat \<Rightarrow> jsstring \<Rightarrow> outcome" where
  "spec_Notifier_send e i toPhone =
     (if truthy (accountSid e) \<and> truthy (authToken e) \<and> truthy (twilioPhone e)
      then (case messages_create e i toPhone of
              Returns _ \<Rightarrow> Sent
            | Throws detail \<Rightarrow> Failed detail)
      else Unconfigured)"

fun spec_ledger_entry :: "outcome \<Rightarrow> jsstring \<times> jsstring" where
  "spec_ledger_entry Sent = (js ''sent'', [])"
| "spec_ledger_entry Unconfigured =
     (js ''logged'', js ''SMS not configured - emergency logged for manual notification'')"
| "spec_ledger_entry (Failed detail) = (js ''failed'', js ''SMS failed: '' @ detail)"

section \<open>Example data\<close>

text \<open>
  Three registered users, one of them with two emergency contacts, a configured
  transport that accepts the first message of a fan-out and times out on the others,
  a store without alerts, and the body of an SOS request.
\<close>

definition ravi :: contact where
  "ravi = \<lparr>c_name = Some (js ''Ravi''), c_phone = Some (js ''09876543211''),
           c_relationship = Some (js ''brother'')\<rparr>"

definition lata :: contact where
  "lata = \<lparr>c_name = Some (js ''Lata''), c_phone = Some (js ''12345''),
           c_relationship = None\<rparr>"

definition asha :: user where
  "asha = \<lparr>u_id = 1, aadhar = js ''123412341234'', u_name = Some (js ''Asha''),
           u_phone = Some (js ''9876543210''), isActive = True,
           emergencyContacts = [ravi, lata]\<rparr>"

definition meena :: user where
  "meena = \<lparr>u_id = 2, aadhar = js ''223412341234'', u_name = Some (js ''Meena''),
            u_phone = Some (js ''9876543212''), isActive = True,
            emergencyContacts = []\<rparr>"

definition kiran :: user where
  "kiran = \<lparr>u_id = 3, aadhar = js ''323412341234'', u_name = None,
            u_phone = Some (js ''+19876543210''), isActive = True,
            emergencyContacts = []\<rparr>"

definition world :: env where
  "world = \<lparr>accountSid = Some (js ''AC1''), authToken = Some (js ''secret''),
            twilioPhone = Some (js ''+15005550006''),
            messages_create =
              (\<lambda>i toPhone. if i = 0 then Returns () else Throws (js ''timeout'')),
            fails = (\<lambda>c. False), now = 1000, fresh_id = 7,
            isLength_max = (\<lambda>n s. length s \<le> n)\<rparr>"

definition store :: db where
  "store = \<lparr>alerts = [], users = [asha, meena, kiran]\<rparr>"

definition sos :: request where
  "sos = \<lparr>authorization = None, params_alertId = 7,
          body_latitude = Some (129 / 10), body_longitude = Some (776 / 10),
          body_address = None, body_description = None,
          body_emergencyType = Some (js ''assault''), body_status = None,
          body_resolutionNotes = None, body_contactPhone = None, body_response = None\<rparr>"

text \<open>The alert that Asha's request creates, and the store that holds it.\<close>

definition asha_alert :: alert where
  "asha_alert = new_SOSAlert world asha sos"

definition store1 :: db where
  "store1 = \<lparr>alerts = [asha_alert], users = [asha, meena, kiran]\<rparr>"

text \<open>The same alert after Asha's two contacts were notified, and a contact's answer.\<close>

definition notified_alert :: alert where
  "notified_alert =
     asha_alert\<lparr>notifiedContacts :=
       to_notifiedContacts world (notify_emergency_contacts world 0 [ravi, lata])\<rparr>"

definition store2 :: db where
  "store2 = \<lparr>alerts = [notified_alert], users = [asha, meena, kiran]\<rparr>"

definition ack :: request where
  "ack = sos\<lparr>body_contactPhone := Some (js ''12345''),
             body_response := Some (js ''acknowledged'')\<rparr>"

text \<open>The store with Asha's alert after her user document was removed.\<close>

definition store_creator_gone :: db where
  "store_creator_gone = \<lparr>alerts = [asha_alert], users = [meena, kiran]\<rparr>"

section \<open>Properties of the phone helper\<close>

lemma last_dropWhile:
  assumes "dropWhile P xs \<noteq> []"
  shows "last (dropWhile P xs) = last xs"
proof -
  have "last (takeWhile P xs @ dropWhile P xs) = last (dropWhile P xs)"
    using assms by (rule last_appendR)
  then show ?thesis by simp
qed

lemma trim_fixed:
  assumes "s = [] \<or> (\<not> isWhiteSpace (hd s) \<and> \<not> isWhiteSpace (last s))"
  shows "trim s = s"
proof -
  have a: "dropWhile isWhiteSpace s = s"
    using assms by (auto simp: dropWhile_eq_self_iff)
  have b: "dropWhile isWhiteSpace (rev s) = rev s"
    using assms by (auto simp: dropWhile_eq_self_iff hd_rev)
  show ?thesis by (simp add: trim_def a b)
qed

lemma trim_ends:
  "trim s = [] \<or> (\<not> isWhiteSpace (hd (trim s)) \<and> \<not> isWhiteSpace (last (trim s)))"
proof (cases "trim s = []")
  case True
  then show ?thesis by simp
next
  case False
  define d where "d = dropWhile isWhiteSpace s"
  define e where "e = dropWhile isWhiteSpace (rev d)"
  have t: "trim s = rev e" by (simp add: trim_def d_def e_def)
  with False have e: "e \<noteq> []" by simp
  then have d: "d \<noteq> []" by (auto simp: e_def)
  have "\<not> isWhiteSpace (hd e)"
    using e unfolding e_def by (rule hd_dropWhile)
  then have l: "\<not> isWhiteSpace (last (trim s))"
    using e by (simp add: t last_rev)
  have "last e = last (rev d)"
    using e unfolding e_def by (rule last_dropWhile)
  also have "\<dots> = hd d" using d by (simp add: last_rev)
  finally have "hd (trim s) = hd d" using e by (simp add: t hd_rev)
  moreover have "\<not> isWhiteSpace (hd d)"
    using d unfolding d_def by (rule hd_dropWhile)
  ultimately show ?thesis using l by simp
qed

lemma plus_not_ws: "\<not> isWhiteSpace 0x2B"
  by (simp add: isWhiteSpace_def)

lemma digit_not_ws: "digit c \<Longrightarrow> \<not> isWhiteSpace c"
  by (auto simp: digit_def isWhiteSpace_def)

lemma digit_6_9_digit: "digit_6_9 c \<Longrightarrow> digit c"
proof -
  assume "digit_6_9 c"
  then have "0x36 \<le> c" "c \<le> 0x39" by (simp_all add: digit_6_9_def)
  moreover have "(0x30 :: jschar) \<le> 0x36" by simp
  ultimately show "digit c" unfolding digit_def by (meson order_trans)
qed

lemma startsWith_plus: "startsWith s (js ''+'') \<longleftrightarrow> s \<noteq> [] \<and> hd s = 0x2B"
  by (cases s) (simp_all add: startsWith_def js_def)

lemma mobile10_iff:
  "mobile10 t \<longleftrightarrow> length t = 10 \<and> digit_6_9 (t ! 0) \<and> (\<forall>c\<in>set t. digit c)"
  by (cases t) (auto simp: list_all_iff digit_6_9_digit)

lemma mobile0_10_iff:
  "mobile0_10 t \<longleftrightarrow>
     length t = 11 \<and> t ! 0 = 0x30 \<and> digit_6_9 (t ! 1) \<and> (\<forall>c\<in>set t. digit c)"
proof (cases t)
  case Nil
  then show ?thesis by simp
next
  case (Cons z cs)
  have "digit (0x30 :: jschar)" by (simp add: digit_def)
  then show ?thesis using Cons by (auto simp: mobile10_iff)
qed

lemma formatPhoneNumber_Some:
  "raw \<noteq> [] \<Longrightarrow> formatPhoneNumber (Some raw) =
     (let t = trim raw in
      if t \<noteq> [] \<and> hd t = 0x2B then t
      else if length t = 10 \<and> digit_6_9 (t ! 0) \<and> (\<forall>c\<in>set t. digit c)
        then js ''+91'' @ t
      else if length t = 11 \<and> t ! 0 = 0x30 \<and> digit_6_9 (t ! 1) \<and> (\<forall>c\<in>set t. digit c)
        then js ''+91'' @ tl t
      else t)"
  unfolding formatPhoneNumber_def Let_def
  by (simp only: startsWith_plus mobile10_iff mobile0_10_iff drop_Suc drop_0 One_nat_def
        option.case if_False)

lemmas phone_eval =
  formatPhoneNumber_def js_def trim_def isWhiteSpace_def startsWith_def digit_def digit_6_9_def

lemma formatPhoneNumber_fixed:
  assumes "t = [] \<or> (\<not> isWhiteSpace (hd t) \<and> \<not> isWhiteSpace (last t))"
    and "startsWith t (js ''+'') \<or> (\<not> mobile10 t \<and> \<not> mobile0_10 t)"
  shows "formatPhoneNumber (Some t) = t"
  using assms(2) by (auto simp: formatPhoneNumber_def trim_fixed[OF assms(1)])

text \<open>
  C7. \<^verbatim>\<open>formatPhoneNumber\<close> has a result for every string and for an absent argument
  (no operation in its body can throw there), and the result is given by the rules in
  their order: absent or empty input gives the empty string; otherwise, with \<open>t\<close> the
  trimmed input, \<open>t\<close> itself when it starts with a plus sign; \<open>+91\<close> before \<open>t\<close> when \<open>t\<close>
  is ten digits of which the first is 6 to 9; \<open>+91\<close> before \<open>t\<close> without its first
  character when \<open>t\<close> is a zero followed by ten such digits; and \<open>t\<close> in every other
  case. The four examples of the specification are instances.
\<close>

theorem formatPhoneNumber_rules:
  "formatPhoneNumber None = [] \<and>
   formatPhoneNumber (Some []) = [] \<and>
   (\<forall>raw. raw \<noteq> [] \<longrightarrow>
      formatPhoneNumber (Some raw) =
        (let t = trim raw in
         if t \<noteq> [] \<and> hd t = 0x2B then t
         else if length t = 10 \<and> digit_6_9 (t ! 0) \<and> (\<forall>c\<in>set t. digit c)
           then js ''+91'' @ t
         else if length t = 11 \<and> t ! 0 = 0x30 \<and> digit_6_9 (t ! 1) \<and> (\<forall>c\<in>set t. digit c)
           then js ''+91'' @ tl t
         else t)) \<and>
   formatPhoneNumber (Some (js ''9876543210'')) = js ''+919876543210'' \<and>
   formatPhoneNumber (Some (js ''09876543210'')) = js ''+919876543210'' \<and>
   formatPhoneNumber (Some (js ''+19876543210'')) = js ''+19876543210'' \<and>
   formatPhoneNumber (Some (js ''12345'')) = js ''12345''"
proof -
  have "formatPhoneNumber None = []" "formatPhoneNumber (Some []) = []"
    by (simp_all add: formatPhoneNumber_def)
  moreover have "formatPhoneNumber (Some (js ''9876543210'')) = js ''+919876543210''"
    by (simp add: phone_eval)
  moreover have "formatPhoneNumber (Some (js ''09876543210'')) = js ''+919876543210''"
    by (simp add: phone_eval)
  moreover have "formatPhoneNumber (Some (js ''+19876543210'')) = js ''+19876543210''"
    by (simp add: phone_eval)
  moreover have "formatPhoneNumber (Some (js ''12345'')) = js ''12345''"
    by (simp add: phone_eval)
  ultimately show ?thesis
    using formatPhoneNumber_Some by blast
qed

theorem formatPhoneNumber_rules_witness:
  "js '' 09876543210  '' \<noteq> [] \<and> trim (js '' 09876543210  '') = js ''09876543210'' \<and>
   formatPhoneNumber (Some (js '' 09876543210  '')) = js ''+919876543210''"
proof -
  have n: "js '' 09876543210  '' \<noteq> []"
    by (simp add: js_def)
  have t: "trim (js '' 09876543210  '') = js ''09876543210''"
    by (simp add: js_def trim_def isWhiteSpace_def)
  from formatPhoneNumber_rules
  have "formatPhoneNumber (Some (js '' 09876543210  '')) =
          (let t = trim (js '' 09876543210  '') in
           if t \<noteq> [] \<and> hd t = 0x2B then t
           else if length t = 10 \<and> digit_6_9 (t ! 0) \<and> (\<forall>c\<in>set t. digit c)
             then js ''+91'' @ t
           else if length t = 11 \<and> t ! 0 = 0x30 \<and> digit_6_9 (t ! 1) \<and> (\<forall>c\<in>set t. digit c)
             then js ''+91'' @ tl t
           else t)"
    using n by blast
  then have "formatPhoneNumber (Some (js '' 09876543210  '')) = js ''+919876543210''"
    unfolding t by (simp add: js_def digit_def digit_6_9_def)
  with n t show ?thesis by blast
qed

text \<open>
  C8. Normalising a phone number twice gives what normalising it once gives, for
  every string and for an absent argument.
\<close>

theorem formatPhoneNumber_idempotent:
  "formatPhoneNumber (Some (formatPhoneNumber x)) = formatPhoneNumber x"
proof (cases x)
  case None
  then show ?thesis by (simp add: formatPhoneNumber_def)
next
  case (Some raw)
  show ?thesis
  proof (cases "raw = []")
    case True
    then show ?thesis using Some by (simp add: formatPhoneNumber_def)
  next
    case False
    define t where "t = trim raw"
    have ends: "t = [] \<or> (\<not> isWhiteSpace (hd t) \<and> \<not> isWhiteSpace (last t))"
      unfolding t_def by (rule trim_ends)
    have plus: "startsWith (js ''+91'' @ u) (js ''+'')" for u
      by (simp add: startsWith_def js_def)
    consider (a) "startsWith t (js ''+'')"
      | (b) "\<not> startsWith t (js ''+'')" "mobile10 t"
      | (c) "\<not> startsWith t (js ''+'')" "\<not> mobile10 t" "mobile0_10 t"
      | (d) "\<not> startsWith t (js ''+'')" "\<not> mobile10 t" "\<not> mobile0_10 t"
      by blast
    then show ?thesis
    proof cases
      case a
      then have r: "formatPhoneNumber x = t"
        using Some False by (simp add: formatPhoneNumber_def t_def)
      show ?thesis unfolding r using ends a by (simp add: formatPhoneNumber_fixed)
    next
      case b
      then have r: "formatPhoneNumber x = js ''+91'' @ t"
        using Some False by (simp add: formatPhoneNumber_def t_def)
      from b(2) have "t \<noteq> []" "\<forall>c\<in>set t. digit c"
        by (auto simp: mobile10_iff)
      then have "t \<noteq> []" "digit (last t)"
        by simp_all
      then have "\<not> isWhiteSpace (hd (js ''+91'' @ t))" "\<not> isWhiteSpace (last (js ''+91'' @ t))"
        by (simp_all add: js_def plus_not_ws digit_not_ws)
      then show ?thesis unfolding r using plus by (simp add: formatPhoneNumber_fixed)
    next
      case c
      then have r: "formatPhoneNumber x = js ''+91'' @ drop 1 t"
        using Some False by (simp add: formatPhoneNumber_def t_def)
      from c(3) have "drop 1 t \<noteq> []" "\<forall>c\<in>set t. digit c"
        by (auto simp: mobile0_10_iff)
      moreover from this have "last (drop 1 t) \<in> set t"
        by (meson last_in_set in_set_dropD)
      ultimately have "drop 1 t \<noteq> []" "digit (last (drop 1 t))"
        by blast+
      then have "\<not> isWhiteSpace (hd (js ''+91'' @ drop 1 t))"
        "\<not> isWhiteSpace (last (js ''+91'' @ drop 1 t))"
        by (simp_all add: js_def plus_not_ws digit_not_ws)
      then show ?thesis unfolding r using plus by (simp add: formatPhoneNumber_fixed)
    next
      case d
      then have r: "formatPhoneNumber x = t"
        using Some False by (simp add: formatPhoneNumber_def t_def)
      show ?thesis unfolding r using ends d by (simp add: formatPhoneNumber_fixed)
    qed
  qed
qed

theorem formatPhoneNumber_idempotent_witness:
  "formatPhoneNumber (Some (js '' 9876543210'')) = js ''+919876543210'' \<and>
   formatPhoneNumber (Some (js ''+919876543210'')) = js ''+919876543210''"
proof -
  have a: "formatPhoneNumber (Some (js '' 9876543210'')) = js ''+919876543210''"
    by (simp add: phone_eval)
  from formatPhoneNumber_idempotent [of "Some (js '' 9876543210'')"]
  show ?thesis unfolding a by (simp add: a)
qed

section \<open>The store\<close>

lemma find_write_back:
  "find (\<lambda>x. a_id x = a_id a) xs = Some x \<Longrightarrow>
   find (\<lambda>x. a_id x = a_id a) (write_back a xs) = Some a"
  by (induction xs) (auto split: if_splits)

lemma write_back_found:
  "find (\<lambda>x. a_id x = a_id a) xs = Some a \<Longrightarrow> write_back a xs = xs"
  by (induction xs) (auto split: if_splits)

lemma find_new:
  "\<not> list_ex (\<lambda>x. a_id x = a_id a) xs \<Longrightarrow> find (\<lambda>x. a_id x = a_id a) (xs @ [a]) = Some a"
  by (induction xs) auto

lemma stored_a_id: "stored d i = Some a \<Longrightarrow> a_id a = i"
  unfolding stored_def by (auto simp: find_Some_iff)

lemma stored_save:
  assumes "stored d i = Some x" "a_id a = i" "\<not> fails e c"
  shows "\<exists>d'. save e c d a = Returns d' \<and> stored d' i = Some a \<and> users d' = users d"
  using assms find_write_back[of a "alerts d" x] by (simp add: save_def stored_def)

lemma save_unchanged:
  assumes "stored d i = Some a" "\<not> fails e c"
  shows "save e c d a = Returns d"
proof -
  from assms(1) have "a_id a = i" by (rule stored_a_id)
  with assms(1) have "write_back a (alerts d) = alerts d"
    by (simp add: stored_def write_back_found)
  with assms(2) show ?thesis by (simp add: save_def)
qed

lemma save_new_Returns:
  assumes "save_new e c d a = Returns d1"
  shows "stored d1 (a_id a) = Some a \<and> users d1 = users d"
  using assms find_new[of a "alerts d"]
  by (auto simp: save_new_def stored_def split: if_splits)

section \<open>The notification loops\<close>

lemma attempt_sms_spec:
  "attempt_sms e i p = spec_ledger_entry (spec_Notifier_send e i p)"
  by (simp add: attempt_sms_def spec_Notifier_send_def twilioClient_def split: attempt.split)

lemma length_notify_users: "length (notify_users e k us) = length us"
  by (induction us arbitrary: k) (simp_all add: Let_def split: prod.split)

lemma length_notify_emergency_contacts: "length (notify_emergency_contacts e k cs) = length cs"
  by (induction cs arbitrary: k) (simp_all add: Let_def split: prod.split)

lemma notify_users_nth:
  "i < length us \<Longrightarrow>
   notify_users e k us ! i =
     (let phone = formatPhoneNumber (u_phone (us ! i));
          (status, error) = spec_ledger_entry (spec_Notifier_send e (k + i) phone)
      in \<lparr>n_name = u_name (us ! i), n_phone = phone,
           n_relationship = Some (js ''System User''), n_status = status, n_error = error\<rparr>)"
proof (induction us arbitrary: k i)
  case Nil
  then show ?case by simp
next
  case (Cons u us)
  show ?case
  proof (cases i)
    case 0
    then show ?thesis by (simp add: Let_def attempt_sms_spec split: prod.split)
  next
    case (Suc j)
    with Cons.prems have "j < length us" by simp
    from Cons.IH[OF this, of "Suc k"] show ?thesis using Suc by (simp add: Let_def split: prod.split)
  qed
qed

lemma notify_emergency_contacts_nth:
  "i < length cs \<Longrightarrow>
   notify_emergency_contacts e k cs ! i =
     (let phone = formatPhoneNumber (c_phone (cs ! i));
          (status, error) = spec_ledger_entry (spec_Notifier_send e (k + i) phone)
      in \<lparr>n_name = c_name (cs ! i), n_phone = phone,
           n_relationship = c_relationship (cs ! i), n_status = status, n_error = error\<rparr>)"
proof (induction cs arbitrary: k i)
  case Nil
  then show ?case by simp
next
  case (Cons c cs)
  show ?case
  proof (cases i)
    case 0
    then show ?thesis by (simp add: Let_def attempt_sms_spec split: prod.split)
  next
    case (Suc j)
    with Cons.prems have "j < length cs" by simp
    from Cons.IH[OF this, of "Suc k"] show ?thesis using Suc by (simp add: Let_def split: prod.split)
  qed
qed

text \<open>
  C3. Both loops record one entry for every recipient, in the order of the
  recipients: entry \<open>i\<close> has the name and the relationship label of recipient \<open>i\<close>,
  its normalised phone, and the status and error that the specification gives for the
  notifier's outcome of attempt \<open>i\<close>: \<open>sent\<close> with the empty error for \<open>Sent\<close>,
  \<open>logged\<close> with the fixed message for \<open>Unconfigured\<close>, \<open>failed\<close> with
  \<open>SMS failed: \<close> before the detail for \<open>Failed detail\<close>. This holds whatever the
  outcomes of the other attempts are, so a failure neither skips nor ends the loop.
\<close>

theorem fan_out_records_every_recipient:
  "length (notify_users e 0 allUsers) = length allUsers \<and>
   (\<forall>i<length allUsers.
      notify_users e 0 allUsers ! i =
        (let phone = formatPhoneNumber (u_phone (allUsers ! i));
             (status, error) = spec_ledger_entry (spec_Notifier_send e i phone)
         in \<lparr>n_name = u_name (allUsers ! i), n_phone = phone,
              n_relationship = Some (js ''System User''),
              n_status = status, n_error = error\<rparr>)) \<and>
   length (notify_emergency_contacts e 0 contacts) = length contacts \<and>
   (\<forall>i<length contacts.
      notify_emergency_contacts e 0 contacts ! i =
        (let phone = formatPhoneNumber (c_phone (contacts ! i));
             (status, error) = spec_ledger_entry (spec_Notifier_send e i phone)
         in \<lparr>n_name = c_name (contacts ! i), n_phone = phone,
              n_relationship = c_relationship (contacts ! i),
              n_status = status, n_error = error\<rparr>))"
  using notify_users_nth[of _ allUsers e 0] notify_emergency_contacts_nth[of _ contacts e 0]
  by (simp add: length_notify_users length_notify_emergency_contacts)

theorem fan_out_records_every_recipient_witness:
  "(1::nat) < length [meena, kiran] \<and>
   notify_users world 0 [meena, kiran] ! 1 =
     \<lparr>n_name = None, n_phone = js ''+19876543210'',
      n_relationship = Some (js ''System User''),
      n_status = js ''failed'', n_error = js ''SMS failed: timeout''\<rparr> \<and>
   (0::nat) < length [ravi, lata] \<and>
   notify_emergency_contacts world 0 [ravi, lata] ! 0 =
     \<lparr>n_name = Some (js ''Ravi''), n_phone = js ''+919876543211'',
      n_relationship = Some (js ''brother''),
      n_status = js ''sent'', n_error = []\<rparr>"
proof -
  have p1: "formatPhoneNumber (u_phone ([meena, kiran] ! 1)) = js ''+19876543210''"
    by (simp add: kiran_def phone_eval)
  have p2: "formatPhoneNumber (c_phone ([ravi, lata] ! 0)) = js ''+919876543211''"
    by (simp add: ravi_def phone_eval)
  have s1: "spec_Notifier_send world 1 p = Failed (js ''timeout'')" for p
    by (simp add: spec_Notifier_send_def world_def truthy_def js_def)
  have s2: "spec_Notifier_send world 0 p = Sent" for p
    by (simp add: spec_Notifier_send_def world_def truthy_def js_def)
  from fan_out_records_every_recipient [of world "[meena, kiran]" "[ravi, lata]"]
  have a: "notify_users world 0 [meena, kiran] ! 1 =
        (let phone = formatPhoneNumber (u_phone ([meena, kiran] ! 1));
             (status, error) = spec_ledger_entry (spec_Notifier_send world 1 phone)
         in \<lparr>n_name = u_name ([meena, kiran] ! 1), n_phone = phone,
              n_relationship = Some (js ''System User''),
              n_status = status, n_error = error\<rparr>)"
    and b: "notify_emergency_contacts world 0 [ravi, lata] ! 0 =
        (let phone = formatPhoneNumber (c_phone ([ravi, lata] ! 0));
             (status, error) = spec_ledger_entry (spec_Notifier_send world 0 phone)
         in \<lparr>n_name = c_name ([ravi, lata] ! 0), n_phone = phone,
              n_relationship = c_relationship ([ravi, lata] ! 0),
              n_status = status, n_error = error\<rparr>)"
    by simp_all
  have a': "notify_users world 0 [meena, kiran] ! 1 =
     \<lparr>n_name = None, n_phone = js ''+19876543210'',
      n_relationship = Some (js ''System User''),
      n_status = js ''failed'', n_error = js ''SMS failed: timeout''\<rparr>"
    unfolding a p1 Let_def s1 by (simp add: kiran_def js_def)
  have b': "notify_emergency_contacts world 0 [ravi, lata] ! 0 =
     \<lparr>n_name = Some (js ''Ravi''), n_phone = js ''+919876543211'',
      n_relationship = Some (js ''brother''),
      n_status = js ''sent'', n_error = []\<rparr>"
    unfolding b p2 Let_def s2 by (simp add: ravi_def)
  from a' b' show ?thesis by simp
qed

section \<open>Status updates\<close>

lemma statusValidation_passes:
  "statusValidation req = [] \<longleftrightarrow>
     (\<exists>s. body_status req = Some s \<and> s \<in> {js ''active'', js ''resolved'', js ''false_alarm''})"
  by (auto simp: statusValidation_def isIn_def js_def split: option.splits)

text \<open>
  C4. For a request with an allowed target status and a lookup that does not throw:
  when no alert has the id, the reply is 404 and the store is as before; when the
  alert's status is not \<open>active\<close>, the reply is 400 (only active alerts can be
  updated) and the store is as before; from \<open>active\<close> to \<open>resolved\<close> the stored
  alert gets the new status, \<open>resolvedAt\<close> the time of the call and \<open>resolvedBy\<close>
  the requester's id; from \<open>active\<close> to \<open>false_alarm\<close> the stored alert gets the new
  status and nothing else changes, so neither \<open>resolvedAt\<close> nor \<open>resolvedBy\<close> is set.
\<close>

theorem updateStatus_transitions:
  assumes "statusValidation req = []" and "\<not> fails e FindAlert"
  shows "(stored d (params_alertId req) = None \<longrightarrow>
            updateStatus e d user req = (d, (404, ErrorBody (js ''SOS alert not found'')))) \<and>
         (\<forall>alert. stored d (params_alertId req) = Some alert \<and> status alert \<noteq> js ''active'' \<longrightarrow>
            updateStatus e d user req =
              (d, (400, ErrorBody (js ''Can only update active alerts'')))) \<and>
         (\<forall>alert. stored d (params_alertId req) = Some alert \<and> status alert = js ''active'' \<and>
                  body_status req = Some (js ''resolved'') \<and> \<not> fails e SaveAlert \<longrightarrow>
            (\<exists>d'. updateStatus e d user req =
                     (d', (200, AlertBody (js ''Alert status updated successfully'')
                            (getSummary (alert\<lparr>status := js ''resolved''\<rparr>)))) \<and>
                  stored d' (params_alertId req) =
                    Some (alert\<lparr>status := js ''resolved'', resolvedAt := Some (now e),
                                resolvedBy := Some (u_id user)\<rparr>))) \<and>
         (\<forall>alert. stored d (params_alertId req) = Some alert \<and> status alert = js ''active'' \<and>
                  body_status req = Some (js ''false_alarm'') \<and> \<not> fails e SaveAlert \<longrightarrow>
            (\<exists>d'. updateStatus e d user req =
                     (d', (200, AlertBody (js ''Alert status updated successfully'')
                            (getSummary (alert\<lparr>status := js ''false_alarm''\<rparr>)))) \<and>
                  stored d' (params_alertId req) = Some (alert\<lparr>status := js ''false_alarm''\<rparr>)))"
proof (intro conjI allI impI)
  assume "stored d (params_alertId req) = None"
  with assms show "updateStatus e d user req = (d, (404, ErrorBody (js ''SOS alert not found'')))"
    by (simp add: updateStatus_def SOSAlert_findById_def)
next
  fix alert
  assume "stored d (params_alertId req) = Some alert \<and> status alert \<noteq> js ''active''"
  with assms show "updateStatus e d user req =
      (d, (400, ErrorBody (js ''Can only update active alerts'')))"
    by (simp add: updateStatus_def SOSAlert_findById_def)
next
  fix alert
  assume a: "stored d (params_alertId req) = Some alert \<and> status alert = js ''active'' \<and>
             body_status req = Some (js ''resolved'') \<and> \<not> fails e SaveAlert"
  define alert2 where "alert2 = alert\<lparr>status := js ''resolved'', resolvedAt := Some (now e),
                                resolvedBy := Some (u_id user)\<rparr>"
  from a have "stored d (params_alertId req) = Some alert" by simp
  then have "a_id alert = params_alertId req" by (rule stored_a_id)
  then have "a_id alert2 = params_alertId req"
    by (simp add: alert2_def)
  with a obtain d' where d': "save e SaveAlert d alert2 = Returns d'"
      "stored d' (params_alertId req) = Some alert2"
    using stored_save[of d "params_alertId req" alert alert2 e SaveAlert] by blast
  have "updateStatus e d user req =
          (d', (200, AlertBody (js ''Alert status updated successfully'') (getSummary alert2)))"
    using assms a d'(1) by (simp add: updateStatus_def SOSAlert_findById_def alert2_def Let_def)
  moreover have "getSummary alert2 = getSummary (alert\<lparr>status := js ''resolved''\<rparr>)"
    by (simp add: getSummary_def alert2_def)
  ultimately show "\<exists>d'. updateStatus e d user req =
                     (d', (200, AlertBody (js ''Alert status updated successfully'')
                            (getSummary (alert\<lparr>status := js ''resolved''\<rparr>)))) \<and>
                  stored d' (params_alertId req) =
                    Some (alert\<lparr>status := js ''resolved'', resolvedAt := Some (now e),
                                resolvedBy := Some (u_id user)\<rparr>)"
    using d'(2) unfolding alert2_def by auto
next
  fix alert
  assume a: "stored d (params_alertId req) = Some alert \<and> status alert = js ''active'' \<and>
             body_status req = Some (js ''false_alarm'') \<and> \<not> fails e SaveAlert"
  define alert2 where "alert2 = alert\<lparr>status := js ''false_alarm''\<rparr>"
  from a have "stored d (params_alertId req) = Some alert" by simp
  then have "a_id alert = params_alertId req" by (rule stored_a_id)
  then have "a_id alert2 = params_alertId req"
    by (simp add: alert2_def)
  with a obtain d' where d': "save e SaveAlert d alert2 = Returns d'"
      "stored d' (params_alertId req) = Some alert2"
    using stored_save[of d "params_alertId req" alert alert2 e SaveAlert] by blast
  have ne: "js ''false_alarm'' \<noteq> js ''resolved''" by (simp add: js_def)
  have "updateStatus e d user req =
          (d', (200, AlertBody (js ''Alert status updated successfully'') (getSummary alert2)))"
    using assms a d'(1) ne by (simp add: updateStatus_def SOSAlert_findById_def alert2_def Let_def)
  then show "\<exists>d'. updateStatus e d user req =
                     (d', (200, AlertBody (js ''Alert status updated successfully'')
                            (getSummary (alert\<lparr>status := js ''false_alarm''\<rparr>)))) \<and>
                  stored d' (params_alertId req) = Some (alert\<lparr>status := js ''false_alarm''\<rparr>)"
    using d'(2) unfolding alert2_def by auto
qed

text \<open>
  C9. The target status \<open>active\<close> passes the validation chain, and on an alert whose
  status is \<open>active\<close> the update succeeds with reply 200: the status stays
  \<open>active\<close>, \<open>resolvedAt\<close> and \<open>resolvedBy\<close> are what they were, and the store is
  as before.
\<close>

theorem updateStatus_accepts_active:
  assumes "body_status req = Some (js ''active'')"
    and "stored d (params_alertId req) = Some alert" and "status alert = js ''active''"
    and "\<not> fails e FindAlert" and "\<not> fails e SaveAlert"
  shows "statusValidation req = [] \<and>
         updateStatus e d user req =
           (d, (200, AlertBody (js ''Alert status updated successfully'') (getSummary alert))) \<and>
         (\<forall>d' r. updateStatus e d user req = (d', r) \<longrightarrow>
            (\<exists>a. stored d' (params_alertId req) = Some a \<and> status a = js ''active'' \<and>
                 resolvedAt a = resolvedAt alert \<and> resolvedBy a = resolvedBy alert))"
proof -
  have v: "statusValidation req = []"
    using assms(1) by (simp add: statusValidation_def isIn_def)
  have same: "alert\<lparr>status := js ''active''\<rparr> = alert"
    using assms(3) by simp
  have ne: "js ''active'' \<noteq> js ''resolved''" by (simp add: js_def)
  have s: "save e SaveAlert d alert = Returns d"
    using assms(2,5) by (rule save_unchanged)
  have "updateStatus e d user req =
           (d, (200, AlertBody (js ''Alert status updated successfully'') (getSummary alert)))"
    using assms v ne s by (simp add: updateStatus_def SOSAlert_findById_def Let_def same)
  with v assms(2,3) show ?thesis by simp
qed


lemma stored_store1: "stored store1 7 = Some asha_alert"
  by (simp add: stored_def store1_def asha_alert_def new_SOSAlert_def world_def)

lemma status_asha_alert: "status asha_alert = js ''active''"
  by (simp add: asha_alert_def new_SOSAlert_def)

lemma world_fails: "\<not> fails world c"
  by (simp add: world_def)

theorem updateStatus_transitions_witness:
  "statusValidation (sos\<lparr>body_status := Some (js ''resolved'')\<rparr>) = [] \<and>
   \<not> fails world FindAlert \<and> \<not> fails world SaveAlert \<and>
   stored store1 (params_alertId (sos\<lparr>body_status := Some (js ''resolved'')\<rparr>)) = Some asha_alert \<and>
   status asha_alert = js ''active'' \<and>
   (\<exists>d'. updateStatus world store1 meena (sos\<lparr>body_status := Some (js ''resolved'')\<rparr>) =
            (d', (200, AlertBody (js ''Alert status updated successfully'')
                    (getSummary (asha_alert\<lparr>status := js ''resolved''\<rparr>)))) \<and>
         stored d' 7 =
           Some (asha_alert\<lparr>status := js ''resolved'', resolvedAt := Some 1000,
                             resolvedBy := Some 2\<rparr>))"
proof -
  let ?req = "sos\<lparr>body_status := Some (js ''resolved'')\<rparr>"
  have v: "statusValidation ?req = []"
    by (simp add: statusValidation_def isIn_def)
  have i: "params_alertId ?req = 7" "body_status ?req = Some (js ''resolved'')"
    by (simp_all add: sos_def)
  have k: "now world = 1000" "u_id meena = 2"
    by (simp_all add: world_def meena_def)
  from updateStatus_transitions [OF v world_fails, of store1 meena]
  have "\<exists>d'. updateStatus world store1 meena ?req =
            (d', (200, AlertBody (js ''Alert status updated successfully'')
                    (getSummary (asha_alert\<lparr>status := js ''resolved''\<rparr>)))) \<and>
         stored d' (params_alertId ?req) =
           Some (asha_alert\<lparr>status := js ''resolved'', resolvedAt := Some (now world),
                             resolvedBy := Some (u_id meena)\<rparr>)"
    using stored_store1 status_asha_alert world_fails i by metis
  then show ?thesis
    using v world_fails stored_store1 status_asha_alert unfolding i k by simp
qed

theorem updateStatus_accepts_active_witness:
  "body_status (sos\<lparr>body_status := Some (js ''active'')\<rparr>) = Some (js ''active'') \<and>
   stored store1 (params_alertId (sos\<lparr>body_status := Some (js ''active'')\<rparr>)) = Some asha_alert \<and>
   status asha_alert = js ''active'' \<and> \<not> fails world FindAlert \<and> \<not> fails world SaveAlert \<and>
   updateStatus world store1 meena (sos\<lparr>body_status := Some (js ''active'')\<rparr>) =
     (store1, (200, AlertBody (js ''Alert status updated successfully'') (getSummary asha_alert)))"
proof -
  let ?req = "sos\<lparr>body_status := Some (js ''active'')\<rparr>"
  have b: "body_status ?req = Some (js ''active'')" by simp
  have i: "params_alertId ?req = 7" by (simp add: sos_def)
  have st: "stored store1 (params_alertId ?req) = Some asha_alert"
    unfolding i by (rule stored_store1)
  from updateStatus_accepts_active [OF b st status_asha_alert world_fails world_fails, of meena]
  show ?thesis using b st status_asha_alert world_fails by blast
qed

section \<open>Contact responses\<close>

lemma contactResponseValidation_passes:
  "contactResponseValidation req = [] \<longleftrightarrow>
     (\<exists>p r. body_contactPhone req = Some p \<and> p \<noteq> [] \<and> body_response req = Some r \<and>
            r \<in> {js ''acknowledged'', js ''responding'', js ''unreachable''})"
  by (auto simp: contactResponseValidation_def isIn_def notEmpty_def js_def split: option.splits)

lemma length_update_found: "length (update_found P f cs) = length cs"
  by (induction cs) simp_all

lemma update_found_first:
  "find P cs = Some c \<Longrightarrow>
   \<exists>k<length cs. P (cs ! k) \<and> (\<forall>j<k. \<not> P (cs ! j)) \<and> update_found P f cs = cs[k := f (cs ! k)]"
proof (induction cs)
  case Nil
  then show ?case by simp
next
  case (Cons x xs)
  show ?case
  proof (cases "P x")
    case True
    then have "0 < length (x # xs) \<and> P ((x # xs) ! 0) \<and> (\<forall>j<0. \<not> P ((x # xs) ! j)) \<and>
               update_found P f (x # xs) = (x # xs)[0 := f ((x # xs) ! 0)]"
      by simp
    then show ?thesis by blast
  next
    case False
    with Cons.prems have "find P xs = Some c" by simp
    from Cons.IH[OF this] obtain k where k: "k < length xs" "P (xs ! k)"
      "\<forall>j<k. \<not> P (xs ! j)" "update_found P f xs = xs[k := f (xs ! k)]"
      by blast
    have "\<forall>j<Suc k. \<not> P ((x # xs) ! j)"
      using False k(3) by (auto simp: less_Suc_eq_0_disj)
    with k False have "Suc k < length (x # xs) \<and> P ((x # xs) ! Suc k) \<and>
        (\<forall>j<Suc k. \<not> P ((x # xs) ! j)) \<and>
        update_found P f (x # xs) = (x # xs)[Suc k := f ((x # xs) ! Suc k)]"
      by simp
    then show ?thesis by blast
  qed
qed

text \<open>
  C6. For a request that passes the validation chains and a lookup that does not
  throw: when no alert has the id, the reply is 404 and the store is as before.
  Otherwise, when the save does not throw, the reply is 200 and the stored alert
  differs from the one found in its ledger only: if some entry has exactly the given
  phone, the first such entry (position \<open>k\<close>) has its \<open>response\<close> and \<open>notifiedAt\<close>
  replaced, every other entry is as before and the ledger keeps its length; if no
  entry has the phone, one entry with the phone, the response and the time of the
  call is appended, and the ledger is longer by one.
\<close>

theorem recordContactResponse_ledger:
  assumes "contactResponseValidation req = []"
    and "body_contactPhone req = Some contactPhone" and "body_response req = Some r"
    and "\<not> fails e FindAlert"
  shows "(stored d (params_alertId req) = None \<longrightarrow>
            recordContactResponse e d req = (d, (404, ErrorBody (js ''SOS alert not found'')))) \<and>
         (\<forall>alert. stored d (params_alertId req) = Some alert \<and> \<not> fails e SaveAlert \<longrightarrow>
            (\<exists>d' ledger.
               recordContactResponse e d req =
                 (d', (200, AlertBody (js ''Contact response recorded successfully'')
                         (getSummary alert))) \<and>
               stored d' (params_alertId req) = Some (alert\<lparr>notifiedContacts := ledger\<rparr>) \<and>
               (if \<exists>c\<in>set (notifiedContacts alert). nc_phone c = Some contactPhone
                then \<exists>k<length (notifiedContacts alert).
                       nc_phone (notifiedContacts alert ! k) = Some contactPhone \<and>
                       (\<forall>j<k. nc_phone (notifiedContacts alert ! j) \<noteq> Some contactPhone) \<and>
                       ledger = (notifiedContacts alert)
                                  [k := (notifiedContacts alert ! k)
                                          \<lparr>response := r, notifiedAt := now e\<rparr>] \<and>
                       length ledger = length (notifiedContacts alert)
                else ledger = notifiedContacts alert @
                                [\<lparr>nc_name = None, nc_phone = Some contactPhone,
                                  notifiedAt = now e, response = r\<rparr>] \<and>
                     length ledger = Suc (length (notifiedContacts alert)))))"
proof (intro conjI allI impI)
  assume "stored d (params_alertId req) = None"
  with assms show "recordContactResponse e d req =
      (d, (404, ErrorBody (js ''SOS alert not found'')))"
    by (simp add: recordContactResponse_def SOSAlert_findById_def)
next
  fix alert
  assume a: "stored d (params_alertId req) = Some alert \<and> \<not> fails e SaveAlert"
  let ?P = "\<lambda>c. nc_phone c = Some contactPhone"
  let ?f = "\<lambda>c. c\<lparr>response := r, notifiedAt := now e\<rparr>"
  let ?L = "notifiedContacts alert"
  define ledger where "ledger =
    (case find ?P ?L of
       Some contact \<Rightarrow> update_found ?P ?f ?L
     | None \<Rightarrow> ?L @ [\<lparr>nc_name = None, nc_phone = Some contactPhone,
                       notifiedAt = now e, response = r\<rparr>])"
  define alert' where "alert' = alert\<lparr>notifiedContacts := ledger\<rparr>"
  from a have st: "stored d (params_alertId req) = Some alert" by simp
  then have "a_id alert = params_alertId req" by (rule stored_a_id)
  then have "a_id alert' = params_alertId req" by (simp add: alert'_def)
  with a obtain d' where d': "save e SaveAlert d alert' = Returns d'"
      "stored d' (params_alertId req) = Some alert'"
    using stored_save[of d "params_alertId req" alert alert' e SaveAlert] by blast
  have "recordContactResponse e d req =
          (d', (200, AlertBody (js ''Contact response recorded successfully'')
                  (getSummary alert')))"
    using assms st d'(1)
    by (simp add: recordContactResponse_def SOSAlert_findById_def Let_def alert'_def ledger_def)
  moreover have "getSummary alert' = getSummary alert"
    by (simp add: getSummary_def alert'_def)
  ultimately have r1: "recordContactResponse e d req =
          (d', (200, AlertBody (js ''Contact response recorded successfully'')
                  (getSummary alert)))"
    by simp
  have r2: "stored d' (params_alertId req) = Some (alert\<lparr>notifiedContacts := ledger\<rparr>)"
    using d'(2) by (simp add: alert'_def)
  have r3: "if \<exists>c\<in>set ?L. ?P c
                then \<exists>k<length ?L. ?P (?L ! k) \<and> (\<forall>j<k. \<not> ?P (?L ! j)) \<and>
                       ledger = ?L[k := ?f (?L ! k)] \<and> length ledger = length ?L
                else ledger = ?L @ [\<lparr>nc_name = None, nc_phone = Some contactPhone,
                                     notifiedAt = now e, response = r\<rparr>] \<and>
                     length ledger = Suc (length ?L)"
  proof (cases "find ?P ?L")
    case None
    then have "\<not> (\<exists>c\<in>set ?L. ?P c)" by (simp add: find_None_iff)
    then show ?thesis using None by (simp add: ledger_def)
  next
    case (Some c)
    then have ex: "\<exists>c\<in>set ?L. ?P c" by (auto simp: find_Some_iff)
    from update_found_first[OF Some, of ?f] obtain k where
      "k < length ?L" "?P (?L ! k)" "\<forall>j<k. \<not> ?P (?L ! j)"
      "update_found ?P ?f ?L = ?L[k := ?f (?L ! k)]"
      by blast
    then have "\<exists>k<length ?L. ?P (?L ! k) \<and> (\<forall>j<k. \<not> ?P (?L ! j)) \<and>
                 ledger = ?L[k := ?f (?L ! k)] \<and> length ledger = length ?L"
      using Some by (auto simp: ledger_def)
    with ex show ?thesis by simp
  qed
  show "\<exists>d' ledger.
               recordContactResponse e d req =
                 (d', (200, AlertBody (js ''Contact response recorded successfully'')
                         (getSummary alert))) \<and>
               stored d' (params_alertId req) = Some (alert\<lparr>notifiedContacts := ledger\<rparr>) \<and>
               (if \<exists>c\<in>set (notifiedContacts alert). nc_phone c = Some contactPhone
                then \<exists>k<length (notifiedContacts alert).
                       nc_phone (notifiedContacts alert ! k) = Some contactPhone \<and>
                       (\<forall>j<k. nc_phone (notifiedContacts alert ! j) \<noteq> Some contactPhone) \<and>
                       ledger = (notifiedContacts alert)
                                  [k := (notifiedContacts alert ! k)
                                          \<lparr>response := r, notifiedAt := now e\<rparr>] \<and>
                       length ledger = length (notifiedContacts alert)
                else ledger = notifiedContacts alert @
                                [\<lparr>nc_name = None, nc_phone = Some contactPhone,
                                  notifiedAt = now e, response = r\<rparr>] \<and>
                     length ledger = Suc (length (notifiedContacts alert)))"
    apply (rule exI[of _ d'])
    apply (rule exI[of _ ledger])
    using r1 r2 r3 by (intro conjI)
qed

text \<open>
  C10. The handler of the contact-response route takes no requester, and its result
  (the store afterwards and the reply) is the same for any two requests that agree on
  the alert id, the contact phone and the response, whatever their authorization
  headers are.
\<close>

theorem recordContactResponse_ignores_caller:
  "params_alertId req1 = params_alertId req2 \<and>
   body_contactPhone req1 = body_contactPhone req2 \<and>
   body_response req1 = body_response req2 \<longrightarrow>
   recordContactResponse e d req1 = recordContactResponse e d req2"
proof
  assume "params_alertId req1 = params_alertId req2 \<and>
          body_contactPhone req1 = body_contactPhone req2 \<and>
          body_response req1 = body_response req2"
  then have same: "params_alertId req1 = params_alertId req2"
    "body_contactPhone req1 = body_contactPhone req2"
    "body_response req1 = body_response req2"
    by simp_all
  show "recordContactResponse e d req1 = recordContactResponse e d req2"
    unfolding recordContactResponse_def contactResponseValidation_def same
    by (rule refl)
qed

lemma to_notifiedContacts_users:
  "to_notifiedContacts e (notify_users e k us) =
     map (\<lambda>u. \<lparr>nc_name = None, nc_phone = Some (formatPhoneNumber (u_phone u)),
                notifiedAt = now e, response = js ''pending''\<rparr>) us"
  by (induction us arbitrary: k)
     (simp_all add: to_notifiedContacts_def Let_def split: prod.split)

lemma to_notifiedContacts_contacts:
  "to_notifiedContacts e (notify_emergency_contacts e k cs) =
     map (\<lambda>c. \<lparr>nc_name = None, nc_phone = Some (formatPhoneNumber (c_phone c)),
                notifiedAt = now e, response = js ''pending''\<rparr>) cs"
  by (induction cs arbitrary: k)
     (simp_all add: to_notifiedContacts_def Let_def split: prod.split)

lemma ledger_notified_alert:
  "notifiedContacts notified_alert =
     [\<lparr>nc_name = None, nc_phone = Some (js ''+919876543211''), notifiedAt = 1000,
       response = js ''pending''\<rparr>,
      \<lparr>nc_name = None, nc_phone = Some (js ''12345''), notifiedAt = 1000,
       response = js ''pending''\<rparr>]"
proof -
  have "formatPhoneNumber (c_phone ravi) = js ''+919876543211''"
    "formatPhoneNumber (c_phone lata) = js ''12345''"
    by (simp_all add: ravi_def lata_def phone_eval)
  then show ?thesis
    unfolding notified_alert_def to_notifiedContacts_contacts by (simp add: world_def)
qed

lemma stored_store2: "stored store2 7 = Some notified_alert"
  by (simp add: stored_def store2_def notified_alert_def asha_alert_def new_SOSAlert_def world_def)

theorem recordContactResponse_ledger_witness:
  "contactResponseValidation ack = [] \<and>
   body_contactPhone ack = Some (js ''12345'') \<and>
   body_response ack = Some (js ''acknowledged'') \<and>
   \<not> fails world FindAlert \<and> \<not> fails world SaveAlert \<and>
   stored store2 (params_alertId ack) = Some notified_alert \<and>
   (\<exists>c\<in>set (notifiedContacts notified_alert). nc_phone c = Some (js ''12345'')) \<and>
   (\<exists>d' ledger.
      recordContactResponse world store2 ack =
        (d', (200, AlertBody (js ''Contact response recorded successfully'')
                (getSummary notified_alert))) \<and>
      stored d' 7 = Some (notified_alert\<lparr>notifiedContacts := ledger\<rparr>) \<and>
      length ledger = 2)"
proof -
  have b: "body_contactPhone ack = Some (js ''12345'')"
    "body_response ack = Some (js ''acknowledged'')" "params_alertId ack = 7"
    by (simp_all add: ack_def sos_def)
  have v: "contactResponseValidation ack = []"
    by (simp add: contactResponseValidation_def b notEmpty_def isIn_def js_def)
  have st: "stored store2 (params_alertId ack) = Some notified_alert"
    unfolding b by (rule stored_store2)
  have ex: "\<exists>c\<in>set (notifiedContacts notified_alert). nc_phone c = Some (js ''12345'')"
    by (simp add: ledger_notified_alert)
  have len: "length (notifiedContacts notified_alert) = 2"
    by (simp add: ledger_notified_alert)
  from recordContactResponse_ledger [OF v b(1) b(2) world_fails, of store2]
  have "\<exists>d' ledger.
      recordContactResponse world store2 ack =
        (d', (200, AlertBody (js ''Contact response recorded successfully'')
                (getSummary notified_alert))) \<and>
      stored d' (params_alertId ack) = Some (notified_alert\<lparr>notifiedContacts := ledger\<rparr>) \<and>
      length ledger = length (notifiedContacts notified_alert)"
    using st ex world_fails[of SaveAlert] by (auto simp del: One_nat_def)
  then show ?thesis
    using v b st ex world_fails by (simp add: len)
qed

theorem recordContactResponse_ignores_caller_witness:
  "params_alertId (ack\<lparr>authorization := Some (js ''Bearer of another user'')\<rparr>) = params_alertId ack \<and>
   recordContactResponse world store2 (ack\<lparr>authorization := Some (js ''Bearer of another user'')\<rparr>) =
   recordContactResponse world store2 ack"
  using recordContactResponse_ignores_caller
          [of "ack\<lparr>authorization := Some (js ''Bearer of another user'')\<rparr>" ack world store2]
  by simp

section \<open>Guards of the notify-contacts route\<close>

text \<open>
  The two guards where the creator's user document exists, so that the populated
  reference is the creator's record: for a lookup that does not throw, a requester
  whose id differs from the creator's gets 403 (not authorized) and the store is as
  before; the creator, when the user lookup does not throw and the saved list of
  emergency contacts is empty, gets 400 (no emergency contacts) and the store is as
  before. The creator's id is read the same way from a populated reference and from
  a plain id.
\<close>

lemma notifyContacts_guards:
  assumes "\<not> fails e FindAlert"
    and "stored d (params_alertId req) = Some alert"
    and "find (\<lambda>u. u_id u = userId alert) (users d) = Some creator"
  shows "(u_id req_user \<noteq> userId alert \<longrightarrow>
            notifyContacts e d req_user req =
              (d, (403, ErrorBody (js ''Not authorized to notify contacts for this alert'')))) \<and>
         (u_id req_user = userId alert \<and> \<not> fails e FindUser \<and> emergencyContacts creator = [] \<longrightarrow>
            notifyContacts e d req_user req =
              (d, (400, ErrorBody (js
    ''No emergency contacts found. Please add emergency contacts in your profile.'')))) \<and>
         alertUserId (Populated creator) = Returns (userId alert) \<and>
         alertUserId (Unpopulated (userId alert)) = Returns (userId alert)"
proof -
  from assms(3) have c: "u_id creator = userId alert"
    by (auto simp: find_Some_iff)
  have p: "populate_userId d alert = Populated creator"
    using assms(3) by (simp add: populate_userId_def)
  have a: "alertUserId (Populated creator) = Returns (userId alert)"
    "alertUserId (Unpopulated (userId alert)) = Returns (userId alert)"
    using c by (simp_all add: alertUserId_def)
  have "notifyContacts e d req_user req =
          (d, (403, ErrorBody (js ''Not authorized to notify contacts for this alert'')))"
    if "u_id req_user \<noteq> userId alert"
    using assms(1,2) p a(1) that by (auto simp: notifyContacts_def SOSAlert_findById_def)
  moreover have "notifyContacts e d req_user req =
              (d, (400, ErrorBody (js
    ''No emergency contacts found. Please add emergency contacts in your profile.'')))"
    if "u_id req_user = userId alert" "\<not> fails e FindUser" "emergencyContacts creator = []"
    using assms p a(1) that
    by (simp add: notifyContacts_def SOSAlert_findById_def User_findById_def)
  ultimately show ?thesis using a by blast
qed

text \<open>
  When no user has the creator's id, the populated reference is \<^verbatim>\<open>null\<close>, reading
  its \<^verbatim>\<open>_id\<close> throws, and the outer \<^verbatim>\<open>catch\<close> answers 500; the store is as before.
\<close>

lemma notifyContacts_creator_missing:
  assumes "\<not> fails e FindAlert"
    and "stored d (params_alertId req) = Some alert"
    and "find (\<lambda>u. u_id u = userId alert) (users d) = None"
  shows "notifyContacts e d req_user req =
           (d, (500, ErrorBody (js ''Failed to notify contacts'')))"
  using assms
  by (simp add: notifyContacts_def SOSAlert_findById_def populate_userId_def alertUserId_def)

lemma notifyContacts_guards_witness:
  "\<not> fails world FindAlert \<and> \<not> fails world FindUser \<and>
   stored store1 (params_alertId sos) = Some asha_alert \<and>
   find (\<lambda>u. u_id u = userId asha_alert) (users store1) = Some asha \<and>
   u_id meena \<noteq> userId asha_alert \<and>
   notifyContacts world store1 meena sos =
     (store1, (403, ErrorBody (js ''Not authorized to notify contacts for this alert''))) \<and>
   stored (store1\<lparr>alerts := [asha_alert\<lparr>userId := 2\<rparr>]\<rparr>) (params_alertId sos) =
     Some (asha_alert\<lparr>userId := 2\<rparr>) \<and>
   find (\<lambda>u. u_id u = userId (asha_alert\<lparr>userId := 2\<rparr>))
     (users (store1\<lparr>alerts := [asha_alert\<lparr>userId := 2\<rparr>]\<rparr>)) = Some meena \<and>
   u_id meena = userId (asha_alert\<lparr>userId := 2\<rparr>) \<and> emergencyContacts meena = [] \<and>
   notifyContacts world (store1\<lparr>alerts := [asha_alert\<lparr>userId := 2\<rparr>]\<rparr>) meena sos =
     (store1\<lparr>alerts := [asha_alert\<lparr>userId := 2\<rparr>]\<rparr>, (400, ErrorBody (js
    ''No emergency contacts found. Please add emergency contacts in your profile.'')))"
proof -
  let ?d = "store1\<lparr>alerts := [asha_alert\<lparr>userId := 2\<rparr>]\<rparr>"
  have i: "params_alertId sos = 7" by (simp add: sos_def)
  have st: "stored store1 (params_alertId sos) = Some asha_alert"
    unfolding i by (rule stored_store1)
  have f: "find (\<lambda>u. u_id u = userId asha_alert) (users store1) = Some asha"
    by (simp add: store1_def asha_alert_def new_SOSAlert_def asha_def)
  have n: "u_id meena \<noteq> userId asha_alert"
    by (simp add: asha_alert_def new_SOSAlert_def asha_def meena_def)
  have st2: "stored ?d (params_alertId sos) = Some (asha_alert\<lparr>userId := 2\<rparr>)"
    unfolding i by (simp add: stored_def asha_alert_def new_SOSAlert_def world_def)
  have f2: "find (\<lambda>u. u_id u = userId (asha_alert\<lparr>userId := 2\<rparr>)) (users ?d) = Some meena"
    by (simp add: store1_def asha_def meena_def)
  have m: "u_id meena = userId (asha_alert\<lparr>userId := 2\<rparr>)" "emergencyContacts meena = []"
    by (simp_all add: meena_def)
  have w: "\<not> fails world FindAlert" "\<not> fails world FindUser"
    by (rule world_fails)+
  from notifyContacts_guards [OF w(1) st f, of meena] n
  have a: "notifyContacts world store1 meena sos =
     (store1, (403, ErrorBody (js ''Not authorized to notify contacts for this alert'')))"
    by blast
  from notifyContacts_guards [OF w(1) st2 f2, of meena] m w(2)
  have b: "notifyContacts world ?d meena sos =
     (?d, (400, ErrorBody (js
    ''No emergency contacts found. Please add emergency contacts in your profile.'')))"
    by blast
  from w st f n a st2 f2 m b show ?thesis by blast
qed

text \<open>
  C5. A requester who is not the creator of the alert is to be refused with 403
  (not authorized), without any change to the store. The handler does so only while
  the creator's user document exists. After that document was removed, the alert
  still names its creator, Meena is not that creator, and the lookup does not throw;
  yet the handler reads \<^verbatim>\<open>_id\<close> of the \<^verbatim>\<open>null\<close> that \<^verbatim>\<open>populate\<close> left, and Meena's
  request is answered by the outer \<^verbatim>\<open>catch\<close> with 500 (failed to notify contacts)
  and not with 403. The store is as before.
\<close>

theorem notifyContacts_creator_gone:
  "stored store_creator_gone (params_alertId sos) = Some asha_alert \<and>
   userId asha_alert = 1 \<and> u_id meena = 2 \<and>
   find (\<lambda>u. u_id u = userId asha_alert) (users store_creator_gone) = None \<and>
   populate_userId store_creator_gone asha_alert = Null \<and>
   alertUserId Null = Throws () \<and>
   \<not> fails world FindAlert \<and>
   notifyContacts world store_creator_gone meena sos =
     (store_creator_gone, (500, ErrorBody (js ''Failed to notify contacts''))) \<and>
   notifyContacts world store_creator_gone meena sos \<noteq>
     (store_creator_gone,
      (403, ErrorBody (js ''Not authorized to notify contacts for this alert'')))"
proof -
  have i: "params_alertId sos = 7" by (simp add: sos_def)
  have st: "stored store_creator_gone (params_alertId sos) = Some asha_alert"
    unfolding i
    by (simp add: stored_def store_creator_gone_def asha_alert_def new_SOSAlert_def world_def)
  have c: "userId asha_alert = 1" "u_id meena = 2"
    by (simp_all add: asha_alert_def new_SOSAlert_def asha_def meena_def)
  have f: "find (\<lambda>u. u_id u = userId asha_alert) (users store_creator_gone) = None"
    unfolding c by (simp add: store_creator_gone_def meena_def kiran_def)
  have p: "populate_userId store_creator_gone asha_alert = Null"
    using f by (simp add: populate_userId_def)
  have t: "alertUserId Null = Throws ()"
    by (simp add: alertUserId_def)
  have w: "\<not> fails world FindAlert" by (rule world_fails)
  have r: "notifyContacts world store_creator_gone meena sos =
     (store_creator_gone, (500, ErrorBody (js ''Failed to notify contacts'')))"
    using w st f by (rule notifyContacts_creator_missing)
  have n: "notifyContacts world store_creator_gone meena sos \<noteq>
     (store_creator_gone,
      (403, ErrorBody (js ''Not authorized to notify contacts for this alert'')))"
    unfolding r by simp
  from st c f p t w r n show ?thesis by blast
qed

section \<open>Alert creation and the ledger\<close>

lemma notify_all_users_find_throws:
  "fails e FindUsers \<Longrightarrow> notify_all_users e d1 user a = (d1, a, [])"
  by (simp add: notify_all_users_def User_find_others_def)

lemma notify_all_users_nobody:
  "\<not> fails e FindUsers \<Longrightarrow> filter (\<lambda>u. isActive u \<and> u_id u \<noteq> u_id user) (users d1) = [] \<Longrightarrow>
   notify_all_users e d1 user a = (d1, a, [])"
  by (simp add: notify_all_users_def User_find_others_def)

lemma notify_all_users_save_throws:
  "\<not> fails e FindUsers \<Longrightarrow> fails e SaveLedger \<Longrightarrow>
   notify_all_users e d1 user a =
     (d1,
      a\<lparr>notifiedContacts := to_notifiedContacts e
          (notify_users e 0 (filter (\<lambda>u. isActive u \<and> u_id u \<noteq> u_id user) (users d1)))\<rparr>,
      notify_users e 0 (filter (\<lambda>u. isActive u \<and> u_id u \<noteq> u_id user) (users d1))) \<or>
   notify_all_users e d1 user a = (d1, a, []) \<and>
     filter (\<lambda>u. isActive u \<and> u_id u \<noteq> u_id user) (users d1) = []"
  by (simp add: notify_all_users_def User_find_others_def save_def Let_def)

lemma notify_all_users_saved:
  assumes "\<not> fails e FindUsers" "\<not> fails e SaveLedger" "stored d1 (a_id a) = Some a"
    and "filter (\<lambda>u. isActive u \<and> u_id u \<noteq> u_id user) (users d1) \<noteq> []"
  shows "\<exists>d2. notify_all_users e d1 user a =
     (d2,
      a\<lparr>notifiedContacts := to_notifiedContacts e
          (notify_users e 0 (filter (\<lambda>u. isActive u \<and> u_id u \<noteq> u_id user) (users d1)))\<rparr>,
      notify_users e 0 (filter (\<lambda>u. isActive u \<and> u_id u \<noteq> u_id user) (users d1))) \<and>
     stored d2 (a_id a) =
       Some (a\<lparr>notifiedContacts := to_notifiedContacts e
          (notify_users e 0 (filter (\<lambda>u. isActive u \<and> u_id u \<noteq> u_id user) (users d1)))\<rparr>)"
proof -
  let ?a' = "a\<lparr>notifiedContacts := to_notifiedContacts e
          (notify_users e 0 (filter (\<lambda>u. isActive u \<and> u_id u \<noteq> u_id user) (users d1)))\<rparr>"
  have "a_id ?a' = a_id a" by simp
  from stored_save[OF assms(3) this assms(2)] obtain d2 where
    "save e SaveLedger d1 ?a' = Returns d2" "stored d2 (a_id a) = Some ?a'"
    by blast
  then show ?thesis
    using assms(1,4) by (simp add: notify_all_users_def User_find_others_def Let_def)
qed

lemma createAlert_created:
  assumes "createAlertValidation e req = []"
    and "save_new e SaveAlert d (new_SOSAlert e user req) = Returns d1"
  shows "createAlert e d user req =
     (case notify_all_users e d1 user (new_SOSAlert e user req) of
        (d2, sosAlert', notificationResults) \<Rightarrow>
          (d2, (201, CreatedBody (js ''SOS alert created successfully'')
                       (getSummary sosAlert') notificationResults)))"
  using assms by (simp add: createAlert_def)

lemma getSummary_ledger: "getSummary (a\<lparr>notifiedContacts := l\<rparr>) = getSummary a"
  by (simp add: getSummary_def)


text \<open>
  C1. For a request that passes validation and whose alert was saved, the create
  route replies 201 with the summary of the created alert, whichever of the database
  calls of the notification phase throw, and the alert is in the store. When the user
  query throws, the reply carries the empty list of notifications; when the query
  returns and saving the ledger throws, it carries the notifications of all other
  active users; in both cases the store is the one left by the first save.
\<close>

theorem createAlert_survives_notification_faults:
  assumes "createAlertValidation e req = []"
    and "save_new e SaveAlert d (new_SOSAlert e user req) = Returns d1"
  shows "\<exists>d' results.
           createAlert e d user req =
             (d', (201, CreatedBody (js ''SOS alert created successfully'')
                     (getSummary (new_SOSAlert e user req)) results)) \<and>
           (\<exists>a. stored d' (fresh_id e) = Some a \<and>
                getSummary a = getSummary (new_SOSAlert e user req)) \<and>
           (fails e FindUsers \<longrightarrow> d' = d1 \<and> results = []) \<and>
           (\<not> fails e FindUsers \<and> fails e SaveLedger \<longrightarrow>
              d' = d1 \<and>
              results = notify_users e 0
                          (filter (\<lambda>u. isActive u \<and> u_id u \<noteq> u_id user) (users d)))"
proof -
  let ?a = "new_SOSAlert e user req"
  let ?others = "filter (\<lambda>u. isActive u \<and> u_id u \<noteq> u_id user) (users d)"
  let ?a' = "?a\<lparr>notifiedContacts := to_notifiedContacts e (notify_users e 0 ?others)\<rparr>"
  have id: "a_id ?a = fresh_id e" by (simp add: new_SOSAlert_def)
  from save_new_Returns[OF assms(2)] have st: "stored d1 (a_id ?a) = Some ?a"
    and us: "users d1 = users d" by simp_all
  note created = createAlert_created[OF assms]
  consider (find) "fails e FindUsers"
    | (nobody) "\<not> fails e FindUsers" "?others = []"
    | (save) "\<not> fails e FindUsers" "?others \<noteq> []" "fails e SaveLedger"
    | (ok) "\<not> fails e FindUsers" "?others \<noteq> []" "\<not> fails e SaveLedger"
    by blast
  then show ?thesis
  proof cases
    case find
    then have "createAlert e d user req =
        (d1, (201, CreatedBody (js ''SOS alert created successfully'') (getSummary ?a) []))"
      using created by (simp add: notify_all_users_find_throws)
    then show ?thesis using st id find by auto
  next
    case nobody
    then have "createAlert e d user req =
        (d1, (201, CreatedBody (js ''SOS alert created successfully'') (getSummary ?a) []))"
      using created us by (simp add: notify_all_users_nobody)
    then show ?thesis using st id nobody by auto
  next
    case save
    then have "notify_all_users e d1 user ?a = (d1, ?a', notify_users e 0 ?others)"
      using notify_all_users_save_throws[of e d1 user ?a] us by auto
    then have "createAlert e d user req =
        (d1, (201, CreatedBody (js ''SOS alert created successfully'') (getSummary ?a)
                (notify_users e 0 ?others)))"
      using created by (simp add: getSummary_ledger)
    then show ?thesis using st id save by auto
  next
    case ok
    from notify_all_users_saved[OF ok(1) ok(3) st, of user] ok(2) us
    obtain d2 where d2: "notify_all_users e d1 user ?a = (d2, ?a', notify_users e 0 ?others)"
      "stored d2 (a_id ?a) = Some ?a'"
      by auto
    then have "createAlert e d user req =
        (d2, (201, CreatedBody (js ''SOS alert created successfully'') (getSummary ?a)
                (notify_users e 0 ?others)))"
      using created by (simp add: getSummary_ledger)
    moreover have "getSummary ?a' = getSummary ?a" by (rule getSummary_ledger)
    ultimately show ?thesis using d2(2) id ok by auto
  qed
qed

text \<open>
  C2. When no database call of the notification phase throws, the alert stored by the
  create route has as its \<open>notifiedContacts\<close> one entry for each other active user,
  in their order, with the normalised phone, the time of the call and response
  \<open>pending\<close>; the list and the notifications of the reply are as long as the list
  of other active users. When the notify-contacts route succeeds, the stored alert
  is the one found with its \<open>notifiedContacts\<close> replaced by one such entry for each
  saved emergency contact of the requester: the new list does not depend on the old
  one, is as long as the contact list, and every entry has response \<open>pending\<close>.
\<close>

theorem fan_out_replaces_ledger:
  "(createAlertValidation e req = [] \<and>
    save_new e SaveAlert d (new_SOSAlert e user req) = Returns d1 \<and>
    \<not> fails e FindUsers \<and> \<not> fails e SaveLedger \<longrightarrow>
      (let others = filter (\<lambda>u. isActive u \<and> u_id u \<noteq> u_id user) (users d) in
       \<exists>d' a. createAlert e d user req =
                (d', (201, CreatedBody (js ''SOS alert created successfully'')
                        (getSummary a) (notify_users e 0 others))) \<and>
              stored d' (fresh_id e) = Some a \<and>
              notifiedContacts a =
                map (\<lambda>u. \<lparr>nc_name = None, nc_phone = Some (formatPhoneNumber (u_phone u)),
                           notifiedAt = now e, response = js ''pending''\<rparr>) others \<and>
              length (notifiedContacts a) = length others \<and>
              length (notify_users e 0 others) = length others \<and>
              (\<forall>c\<in>set (notifiedContacts a). response c = js ''pending''))) \<and>
   (\<not> fails e FindAlert \<and> \<not> fails e FindUser \<and> \<not> fails e SaveLedger \<and>
    stored d (params_alertId req) = Some alert \<and> userId alert = u_id req_user \<and>
    find (\<lambda>u. u_id u = u_id req_user) (users d) = Some u \<and> emergencyContacts u \<noteq> [] \<longrightarrow>
      (\<exists>d' ledger.
         notifyContacts e d req_user req =
           (d', (200, NotifiedBody (js ''Emergency contacts notified successfully'')
                   (notify_emergency_contacts e 0 (emergencyContacts u)) (getSummary alert))) \<and>
         stored d' (params_alertId req) = Some (alert\<lparr>notifiedContacts := ledger\<rparr>) \<and>
         ledger =
           map (\<lambda>c. \<lparr>nc_name = None, nc_phone = Some (formatPhoneNumber (c_phone c)),
                      notifiedAt = now e, response = js ''pending''\<rparr>) (emergencyContacts u) \<and>
         length ledger = length (emergencyContacts u) \<and>
         length (notify_emergency_contacts e 0 (emergencyContacts u)) =
           length (emergencyContacts u) \<and>
         (\<forall>c\<in>set ledger. response c = js ''pending'')))"
proof (intro conjI impI)
  assume h: "createAlertValidation e req = [] \<and>
    save_new e SaveAlert d (new_SOSAlert e user req) = Returns d1 \<and>
    \<not> fails e FindUsers \<and> \<not> fails e SaveLedger"
  let ?a = "new_SOSAlert e user req"
  define others where "others = filter (\<lambda>u. isActive u \<and> u_id u \<noteq> u_id user) (users d)"
  let ?ledger = "map (\<lambda>u. \<lparr>nc_name = None, nc_phone = Some (formatPhoneNumber (u_phone u)),
                           notifiedAt = now e, response = js ''pending''\<rparr>) others"
  have id: "a_id ?a = fresh_id e" and empty: "notifiedContacts ?a = []"
    by (simp_all add: new_SOSAlert_def)
  from h have sn: "save_new e SaveAlert d ?a = Returns d1" by simp
  from save_new_Returns[OF sn] have st: "stored d1 (a_id ?a) = Some ?a"
    and us: "users d1 = users d" by simp_all
  from h have created: "createAlert e d user req =
     (case notify_all_users e d1 user ?a of
        (d2, sosAlert', notificationResults) \<Rightarrow>
          (d2, (201, CreatedBody (js ''SOS alert created successfully'')
                       (getSummary sosAlert') notificationResults)))"
    by (simp add: createAlert_created)
  have "\<exists>d' a. createAlert e d user req =
                (d', (201, CreatedBody (js ''SOS alert created successfully'')
                        (getSummary a) (notify_users e 0 others))) \<and>
              stored d' (fresh_id e) = Some a \<and> notifiedContacts a = ?ledger"
  proof (cases "others = []")
    case True
    then have "notify_all_users e d1 user ?a = (d1, ?a, [])"
      using h us by (simp add: notify_all_users_nobody others_def)
    then have "createAlert e d user req =
        (d1, (201, CreatedBody (js ''SOS alert created successfully'') (getSummary ?a)
                (notify_users e 0 others)))"
      using created True by simp
    then show ?thesis using st id empty True by auto
  next
    case False
    let ?a' = "?a\<lparr>notifiedContacts := to_notifiedContacts e (notify_users e 0 others)\<rparr>"
    from h have f: "\<not> fails e FindUsers" "\<not> fails e SaveLedger" by simp_all
    from notify_all_users_saved[OF f st, of user] False us
    obtain d2 where d2: "notify_all_users e d1 user ?a = (d2, ?a', notify_users e 0 others)"
      "stored d2 (a_id ?a) = Some ?a'"
      by (auto simp: others_def)
    then have "createAlert e d user req =
        (d2, (201, CreatedBody (js ''SOS alert created successfully'') (getSummary ?a')
                (notify_users e 0 others)))"
      using created by simp
    moreover have "notifiedContacts ?a' = ?ledger"
      by (simp add: to_notifiedContacts_users)
    ultimately show ?thesis using d2(2) id by auto
  qed
  then obtain d' a where r: "createAlert e d user req =
                (d', (201, CreatedBody (js ''SOS alert created successfully'')
                        (getSummary a) (notify_users e 0 others)))"
      "stored d' (fresh_id e) = Some a" "notifiedContacts a = ?ledger"
    by blast
  have "createAlert e d user req =
                (d', (201, CreatedBody (js ''SOS alert created successfully'')
                        (getSummary a) (notify_users e 0 others))) \<and>
              stored d' (fresh_id e) = Some a \<and>
              notifiedContacts a = ?ledger \<and>
              length (notifiedContacts a) = length others \<and>
              length (notify_users e 0 others) = length others \<and>
              (\<forall>c\<in>set (notifiedContacts a). response c = js ''pending'')"
    using r by (simp add: length_notify_users)
  then show "let others = filter (\<lambda>u. isActive u \<and> u_id u \<noteq> u_id user) (users d) in
       \<exists>d' a. createAlert e d user req =
                (d', (201, CreatedBody (js ''SOS alert created successfully'')
                        (getSummary a) (notify_users e 0 others))) \<and>
              stored d' (fresh_id e) = Some a \<and>
              notifiedContacts a =
                map (\<lambda>u. \<lparr>nc_name = None, nc_phone = Some (formatPhoneNumber (u_phone u)),
                           notifiedAt = now e, response = js ''pending''\<rparr>) others \<and>
              length (notifiedContacts a) = length others \<and>
              length (notify_users e 0 others) = length others \<and>
              (\<forall>c\<in>set (notifiedContacts a). response c = js ''pending'')"
    unfolding Let_def others_def[symmetric] by blast
next
  assume h: "\<not> fails e FindAlert \<and> \<not> fails e FindUser \<and> \<not> fails e SaveLedger \<and>
    stored d (params_alertId req) = Some alert \<and> userId alert = u_id req_user \<and>
    find (\<lambda>u. u_id u = u_id req_user) (users d) = Some u \<and> emergencyContacts u \<noteq> []"
  let ?results = "notify_emergency_contacts e 0 (emergencyContacts u)"
  define ledger where "ledger = to_notifiedContacts e ?results"
  let ?a' = "alert\<lparr>notifiedContacts := ledger\<rparr>"
  from h have st: "stored d (params_alertId req) = Some alert" by simp
  then have "a_id alert = params_alertId req" by (rule stored_a_id)
  then have "a_id ?a' = params_alertId req" by simp
  from stored_save[OF st this, of e SaveLedger] h
  obtain d' where d': "save e SaveLedger d ?a' = Returns d'"
    "stored d' (params_alertId req) = Some ?a'"
    by blast
  have p: "populate_userId d alert = Populated u"
    using h by (simp add: populate_userId_def)
  have c: "u_id u = u_id req_user"
    using h by (auto simp: find_Some_iff)
  have r1: "notifyContacts e d req_user req =
           (d', (200, NotifiedBody (js ''Emergency contacts notified successfully'')
                   ?results (getSummary alert)))"
    using h p c d'(1)
    by (simp add: notifyContacts_def SOSAlert_findById_def User_findById_def alertUserId_def
          Let_def ledger_def getSummary_ledger)
  have r3: "ledger =
           map (\<lambda>c. \<lparr>nc_name = None, nc_phone = Some (formatPhoneNumber (c_phone c)),
                      notifiedAt = now e, response = js ''pending''\<rparr>) (emergencyContacts u)"
    by (simp add: ledger_def to_notifiedContacts_contacts)
  have r4: "length ledger = length (emergencyContacts u)"
    "length ?results = length (emergencyContacts u)"
    "\<forall>c\<in>set ledger. response c = js ''pending''"
    by (simp_all add: r3 length_notify_emergency_contacts)
  show "\<exists>d' ledger.
         notifyContacts e d req_user req =
           (d', (200, NotifiedBody (js ''Emergency contacts notified successfully'')
                   (notify_emergency_contacts e 0 (emergencyContacts u)) (getSummary alert))) \<and>
         stored d' (params_alertId req) = Some (alert\<lparr>notifiedContacts := ledger\<rparr>) \<and>
         ledger =
           map (\<lambda>c. \<lparr>nc_name = None, nc_phone = Some (formatPhoneNumber (c_phone c)),
                      notifiedAt = now e, response = js ''pending''\<rparr>) (emergencyContacts u) \<and>
         length ledger = length (emergencyContacts u) \<and>
         length (notify_emergency_contacts e 0 (emergencyContacts u)) =
           length (emergencyContacts u) \<and>
         (\<forall>c\<in>set ledger. response c = js ''pending'')"
    apply (rule exI[of _ d'])
    apply (rule exI[of _ ledger])
    using r1 d'(2) r3 r4 by (intro conjI)
qed


lemma createAlertValidation_sos: "createAlertValidation (world\<lparr>fails := f\<rparr>) sos = []"
  by (simp add: createAlertValidation_def sos_def isFloat_def optional_def)

lemma new_SOSAlert_sos: "new_SOSAlert (world\<lparr>fails := f\<rparr>) asha sos = asha_alert"
  by (simp add: asha_alert_def new_SOSAlert_def world_def)

lemma save_new_store:
  "\<not> f SaveAlert \<Longrightarrow> save_new (world\<lparr>fails := f\<rparr>) SaveAlert store asha_alert = Returns store1"
  by (simp add: save_new_def store_def store1_def)

lemma others_store:
  "filter (\<lambda>u. isActive u \<and> u_id u \<noteq> u_id asha) (users store) = [meena, kiran]"
  by (simp add: store_def asha_def meena_def kiran_def)

theorem createAlert_survives_notification_faults_witness:
  "createAlertValidation (world\<lparr>fails := (\<lambda>c. c = FindUsers)\<rparr>) sos = [] \<and>
   save_new (world\<lparr>fails := (\<lambda>c. c = FindUsers)\<rparr>) SaveAlert store
     (new_SOSAlert (world\<lparr>fails := (\<lambda>c. c = FindUsers)\<rparr>) asha sos) = Returns store1 \<and>
   fails (world\<lparr>fails := (\<lambda>c. c = FindUsers)\<rparr>) FindUsers \<and>
   createAlert (world\<lparr>fails := (\<lambda>c. c = FindUsers)\<rparr>) store asha sos =
     (store1, (201, CreatedBody (js ''SOS alert created successfully'')
                 (getSummary asha_alert) [])) \<and>
   createAlertValidation (world\<lparr>fails := (\<lambda>c. c = SaveLedger)\<rparr>) sos = [] \<and>
   save_new (world\<lparr>fails := (\<lambda>c. c = SaveLedger)\<rparr>) SaveAlert store
     (new_SOSAlert (world\<lparr>fails := (\<lambda>c. c = SaveLedger)\<rparr>) asha sos) = Returns store1 \<and>
   \<not> fails (world\<lparr>fails := (\<lambda>c. c = SaveLedger)\<rparr>) FindUsers \<and>
   fails (world\<lparr>fails := (\<lambda>c. c = SaveLedger)\<rparr>) SaveLedger \<and>
   createAlert (world\<lparr>fails := (\<lambda>c. c = SaveLedger)\<rparr>) store asha sos =
     (store1, (201, CreatedBody (js ''SOS alert created successfully'')
                 (getSummary asha_alert)
                 (notify_users (world\<lparr>fails := (\<lambda>c. c = SaveLedger)\<rparr>) 0 [meena, kiran])))"
proof -
  let ?e1 = "world\<lparr>fails := (\<lambda>c. c = FindUsers)\<rparr>"
  let ?e2 = "world\<lparr>fails := (\<lambda>c. c = SaveLedger)\<rparr>"
  have v1: "createAlertValidation ?e1 sos = []" and v2: "createAlertValidation ?e2 sos = []"
    by (rule createAlertValidation_sos)+
  have s1: "save_new ?e1 SaveAlert store (new_SOSAlert ?e1 asha sos) = Returns store1"
    unfolding new_SOSAlert_sos by (rule save_new_store) simp
  have s2: "save_new ?e2 SaveAlert store (new_SOSAlert ?e2 asha sos) = Returns store1"
    unfolding new_SOSAlert_sos by (rule save_new_store) simp
  have f1: "fails ?e1 FindUsers" by simp
  have f2: "\<not> fails ?e2 FindUsers" "fails ?e2 SaveLedger" by simp_all
  from createAlert_survives_notification_faults [OF v1 s1] f1
  have a: "createAlert ?e1 store asha sos =
     (store1, (201, CreatedBody (js ''SOS alert created successfully'')
                 (getSummary asha_alert) []))"
    unfolding new_SOSAlert_sos by auto
  from createAlert_survives_notification_faults [OF v2 s2] f2
  have b: "createAlert ?e2 store asha sos =
     (store1, (201, CreatedBody (js ''SOS alert created successfully'')
                 (getSummary asha_alert) (notify_users ?e2 0 [meena, kiran])))"
    unfolding new_SOSAlert_sos others_store by auto
  from v1 s1 f1 a v2 s2 f2 b show ?thesis by blast
qed

theorem fan_out_replaces_ledger_witness:
  "createAlertValidation world sos = [] \<and>
   save_new world SaveAlert store (new_SOSAlert world asha sos) = Returns store1 \<and>
   \<not> fails world FindUsers \<and> \<not> fails world SaveLedger \<and>
   (\<exists>d' a. createAlert world store asha sos =
             (d', (201, CreatedBody (js ''SOS alert created successfully'')
                     (getSummary a) (notify_users world 0 [meena, kiran]))) \<and>
           stored d' 7 = Some a \<and> length (notifiedContacts a) = 2) \<and>
   \<not> fails world FindAlert \<and> \<not> fails world FindUser \<and>
   stored store1 (params_alertId sos) = Some asha_alert \<and> userId asha_alert = u_id asha \<and>
   find (\<lambda>u. u_id u = u_id asha) (users store1) = Some asha \<and>
   emergencyContacts asha \<noteq> [] \<and>
   (\<exists>d'. notifyContacts world store1 asha sos =
           (d', (200, NotifiedBody (js ''Emergency contacts notified successfully'')
                   (notify_emergency_contacts world 0 [ravi, lata]) (getSummary asha_alert))) \<and>
         stored d' 7 = Some notified_alert)"
proof -
  have w: "world\<lparr>fails := fails world\<rparr> = world" by simp
  have v: "createAlertValidation world sos = []"
    using createAlertValidation_sos[of "fails world"] by (simp only: w)
  have n: "new_SOSAlert world asha sos = asha_alert"
    by (simp add: asha_alert_def)
  have s: "save_new world SaveAlert store (new_SOSAlert world asha sos) = Returns store1"
    unfolding n by (simp add: save_new_def store_def store1_def world_fails)
  have i: "params_alertId sos = 7" "fresh_id world = 7" "now world = 1000"
    by (simp_all add: sos_def world_def)
  have st: "stored store1 (params_alertId sos) = Some asha_alert"
    unfolding i by (rule stored_store1)
  have c: "userId asha_alert = u_id asha"
    by (simp add: asha_alert_def new_SOSAlert_def)
  have f: "find (\<lambda>u. u_id u = u_id asha) (users store1) = Some asha"
    by (simp add: store1_def)
  have ec: "emergencyContacts asha = [ravi, lata]"
    by (simp add: asha_def)
  have na: "notified_alert =
      asha_alert\<lparr>notifiedContacts :=
        map (\<lambda>c. \<lparr>nc_name = None, nc_phone = Some (formatPhoneNumber (c_phone c)),
                   notifiedAt = now world, response = js ''pending''\<rparr>) [ravi, lata]\<rparr>"
    unfolding notified_alert_def to_notifiedContacts_contacts by (rule refl)
  have ne: "emergencyContacts asha \<noteq> []"
    by (simp add: asha_def)
  from fan_out_replaces_ledger
         [where e = world and req = sos and d = store and user = asha and ?d1.0 = store1,
          THEN conjunct1]
       v s world_fails
  have "let others = filter (\<lambda>u. isActive u \<and> u_id u \<noteq> u_id asha) (users store) in
       \<exists>d' a. createAlert world store asha sos =
                (d', (201, CreatedBody (js ''SOS alert created successfully'')
                        (getSummary a) (notify_users world 0 others))) \<and>
              stored d' (fresh_id world) = Some a \<and>
              notifiedContacts a =
                map (\<lambda>u. \<lparr>nc_name = None, nc_phone = Some (formatPhoneNumber (u_phone u)),
                           notifiedAt = now world, response = js ''pending''\<rparr>) others \<and>
              length (notifiedContacts a) = length others \<and>
              length (notify_users world 0 others) = length others \<and>
              (\<forall>c\<in>set (notifiedContacts a). response c = js ''pending'')"
    by blast
  then have a: "\<exists>d' a. createAlert world store asha sos =
             (d', (201, CreatedBody (js ''SOS alert created successfully'')
                     (getSummary a) (notify_users world 0 [meena, kiran]))) \<and>
           stored d' 7 = Some a \<and> length (notifiedContacts a) = 2"
    unfolding Let_def others_store i by auto
  from fan_out_replaces_ledger
         [where e = world and req = sos and d = store1 and alert = asha_alert
            and req_user = asha and u = asha, THEN conjunct2]
       st c f ne world_fails
  have "\<exists>d' ledger.
         notifyContacts world store1 asha sos =
           (d', (200, NotifiedBody (js ''Emergency contacts notified successfully'')
                   (notify_emergency_contacts world 0 (emergencyContacts asha))
                   (getSummary asha_alert))) \<and>
         stored d' (params_alertId sos) = Some (asha_alert\<lparr>notifiedContacts := ledger\<rparr>) \<and>
         ledger =
           map (\<lambda>c. \<lparr>nc_name = None, nc_phone = Some (formatPhoneNumber (c_phone c)),
                      notifiedAt = now world, response = js ''pending''\<rparr>)
             (emergencyContacts asha)"
    by blast
  then have b: "\<exists>d'. notifyContacts world store1 asha sos =
           (d', (200, NotifiedBody (js ''Emergency contacts notified successfully'')
                   (notify_emergency_contacts world 0 [ravi, lata]) (getSummary asha_alert))) \<and>
         stored d' 7 = Some notified_alert"
    unfolding ec i(1) na by blast
  from v s world_fails a st c f ne b show ?thesis by blast
qed

end
